theory Spec2Isabelle
  imports Complex_Main "HOL-Library.Sublist"
begin

section \<open>Constants of \<^verbatim>\<open>slice_recordings.py\<close>\<close>

text \<open>
  Energies, thresholds and frame times are floating-point numbers in the program. They
  are modelled as real numbers: the boundary search only compares them, and the time
  conversion is one multiplication and one division. The durations of the stimuli table
  come from a file and need not be numbers; they are modelled as floats that can be
  \<^verbatim>\<open>nan\<close> or infinite (type \<open>pyfloat\<close> below).
\<close>

definition FRAME_SIZE :: int where
  "FRAME_SIZE = 1024"

definition HOP_LENGTH :: int where
  "HOP_LENGTH = 256"

definition THRESHOLD :: real where
  "THRESHOLD = 0.015"

definition THRESHOLD_END :: real where
  "THRESHOLD_END = 0.015"

definition MAX_PAUSE_FRAMES :: int where
  "MAX_PAUSE_FRAMES = 20"

definition NORMALIZE_RMS :: bool where
  "NORMALIZE_RMS = True"

section \<open>Python values and errors\<close>

text \<open>
  Every exception the modelled code can raise is a value of \<open>error\<close>; a computation
  returns \<open>Inl\<close> of it instead of a result. \<open>LoadError\<close> stands for whatever
  \<^verbatim>\<open>librosa.load\<close> raises on a file it cannot read.
\<close>

datatype error = ValueError | IndexError | KeyError | AttributeError | TypeError | LoadError

text \<open>
  Indexing a Python sequence with an integer: a negative index counts from the end, an
  index outside \<open>[-len, len)\<close> raises \<^verbatim>\<open>IndexError\<close>.
\<close>

definition py_index :: "'a list \<Rightarrow> int \<Rightarrow> error + 'a" where
  "py_index xs i =
     (if 0 \<le> i \<and> i < int (length xs) then Inr (xs ! nat i)
      else if - int (length xs) \<le> i \<and> i < 0 then Inr (xs ! nat (int (length xs) + i))
      else Inl IndexError)"

text \<open>
  A slice \<^verbatim>\<open>xs[a:b]\<close>: each bound is taken from the end when negative and clamped to
  \<open>[0, len]\<close>; an empty range gives the empty sequence.
\<close>

definition slice_bound :: "int \<Rightarrow> int \<Rightarrow> int" where
  "slice_bound n i = (if i < 0 then max 0 (n + i) else min i n)"

definition py_slice :: "'a list \<Rightarrow> int \<Rightarrow> int \<Rightarrow> 'a list" where
  "py_slice xs a b =
     (let n = int (length xs); lo = slice_bound n a; hi = slice_bound n b
      in take (nat (hi - lo)) (drop (nat lo) xs))"

text \<open>\<^verbatim>\<open>np.max\<close>, \<^verbatim>\<open>np.min\<close> and \<^verbatim>\<open>np.argmax\<close> (the first index of the maximum) on a
  non-empty array.\<close>

definition np_max :: "real list \<Rightarrow> real" where
  "np_max xs = Max (set xs)"

definition np_min :: "real list \<Rightarrow> real" where
  "np_min xs = Min (set xs)"

definition np_argmax :: "real list \<Rightarrow> int" where
  "np_argmax xs = int (length (takeWhile (\<lambda>x. x \<noteq> np_max xs) xs))"

text \<open>
  \<^verbatim>\<open>librosa.frames_to_time(frames, sr=22050, hop_length=...)\<close>: frame \<open>f\<close> starts at
  sample \<open>f * hop_length\<close>, that is at \<open>f * hop_length / sr\<close> seconds. The source calls
  it without \<^verbatim>\<open>sr\<close>, so the library's default rate applies.
\<close>

definition LIBROSA_DEFAULT_SR :: real where
  "LIBROSA_DEFAULT_SR = 22050"

definition frames_to_time :: "int list \<Rightarrow> real \<Rightarrow> int \<Rightarrow> real list" where
  "frames_to_time frames sr hop_length = map (\<lambda>f. real_of_int (f * hop_length) / sr) frames"

text \<open>
  The values of the stimuli table and the reaction times computed from them are Python
  floats that need not be numbers: a blank cell of the table is read as \<^verbatim>\<open>nan\<close>. Such a
  float is a real number, one of the two infinities, or \<^verbatim>\<open>nan\<close>. \<open>pf_less\<close> and
  \<open>pf_le\<close> are Python's \<^verbatim>\<open><\<close> and \<^verbatim>\<open><=\<close>, false whenever an operand is \<^verbatim>\<open>nan\<close>
  (\<^verbatim>\<open>a > b\<close> is \<open>pf_less b a\<close>); \<open>pf_sub\<close> is the subtraction.
\<close>

datatype pyfloat = Num real | PInf | MInf | NaN

fun pf_less :: "pyfloat \<Rightarrow> pyfloat \<Rightarrow> bool" where
  "pf_less (Num a) (Num b) = (a < b)"
| "pf_less (Num a) PInf = True"
| "pf_less MInf (Num b) = True"
| "pf_less MInf PInf = True"
| "pf_less PInf b = False"
| "pf_less a MInf = False"
| "pf_less NaN b = False"
| "pf_less a NaN = False"

fun pf_le :: "pyfloat \<Rightarrow> pyfloat \<Rightarrow> bool" where
  "pf_le NaN b = False"
| "pf_le a NaN = False"
| "pf_le (Num a) (Num b) = (a \<le> b)"
| "pf_le MInf b = True"
| "pf_le a PInf = True"
| "pf_le PInf b = False"
| "pf_le a MInf = False"

fun pf_sub :: "pyfloat \<Rightarrow> pyfloat \<Rightarrow> pyfloat" where
  "pf_sub NaN b = NaN"
| "pf_sub a NaN = NaN"
| "pf_sub (Num a) (Num b) = Num (a - b)"
| "pf_sub (Num a) PInf = MInf"
| "pf_sub (Num a) MInf = PInf"
| "pf_sub PInf PInf = NaN"
| "pf_sub MInf MInf = NaN"
| "pf_sub PInf b = PInf"
| "pf_sub MInf b = MInf"

section \<open>The boundary search of \<^verbatim>\<open>slice_noise_reduced_audio_files_byt\<close>\<close>

text \<open>
  The inner loop of the left expansion (source line 93):
  \<^verbatim>\<open>while start - count >= 0 and rms_sound[start-count] < threshold and count < MAX_PAUSE_FRAMES: count += 1\<close>.
  The index \<open>start - count\<close> is read only after it was found non-negative; the loop is
  entered with \<open>start\<close> at most the index of the loudest frame, so the read is in range.
  The pause cap is a parameter \<open>cap\<close>, instantiated with \<open>MAX_PAUSE_FRAMES\<close> below.
\<close>

function probe_left :: "real list \<Rightarrow> real \<Rightarrow> int \<Rightarrow> int \<Rightarrow> int \<Rightarrow> int" where
  "probe_left rms threshold cap start count =
     (if start - count \<ge> 0 \<and> rms ! nat (start - count) < threshold \<and> count < cap
      then probe_left rms threshold cap start (count + 1)
      else count)"
  by pat_completeness auto
termination
  by (relation "measure (\<lambda>(rms, threshold, cap, start, count). nat (start - count + 1))") auto

declare probe_left.simps [simp del]

text \<open>
  The outer loop of the left expansion (source lines 86 to 98). The flag of the source
  only ends the loop, so the model returns where the source sets it to False. The loop
  need not end: not returning is the value \<open>None\<close>.
\<close>

partial_function (option) expand_left :: "real list \<Rightarrow> real \<Rightarrow> int \<Rightarrow> int \<Rightarrow> int option" where
  "expand_left rms threshold cap start =
     (if start \<ge> 0 then
        (if rms ! nat start > threshold then expand_left rms threshold cap (start - 1)
         else
           (let count = probe_left rms threshold cap start 0 in
            if start - count = -1 \<or> count = cap then Some start
            else expand_left rms threshold cap (start - count)))
      else Some start)"

declare expand_left.simps [code]

text \<open>
  The inner loop of the right expansion (source line 108); \<open>rms_sound.size\<close> is the
  length of the envelope.
\<close>

function probe_right :: "real list \<Rightarrow> real \<Rightarrow> int \<Rightarrow> int \<Rightarrow> int \<Rightarrow> int" where
  "probe_right rms threshold_end cap end count =
     (if end + count < int (length rms) \<and> rms ! nat (end + count) < threshold_end \<and> count < cap
      then probe_right rms threshold_end cap end (count + 1)
      else count)"
  by pat_completeness auto
termination
  by (relation "measure (\<lambda>(rms, threshold_end, cap, end, count). nat (int (length rms) - (end + count)))") auto

declare probe_right.simps [simp del]

text \<open>The outer loop of the right expansion (source lines 101 to 113).\<close>

partial_function (option) expand_right :: "real list \<Rightarrow> real \<Rightarrow> int \<Rightarrow> int \<Rightarrow> int option" where
  "expand_right rms threshold_end cap end =
     (if end < int (length rms) then
        (if rms ! nat end > threshold_end then expand_right rms threshold_end cap (end + 1)
         else
           (let count = probe_right rms threshold_end cap end 0 in
            if end + count = int (length rms) \<or> count = cap then Some end
            else expand_right rms threshold_end cap (end + count)))
      else Some end)"

declare expand_right.simps [code]

text \<open>
  Both expansions start from \<^verbatim>\<open>middle = np.argmax(rms_sound)\<close> (source line 83); the
  right one runs only when the left one has returned.
\<close>

definition boundary_search :: "real list \<Rightarrow> real \<Rightarrow> real \<Rightarrow> int \<Rightarrow> (int \<times> int) option" where
  "boundary_search rms threshold threshold_end cap =
     (let middle = np_argmax rms in
      case expand_left rms threshold cap middle of
        None \<Rightarrow> None
      | Some start \<Rightarrow>
          (case expand_right rms threshold_end cap middle of
             None \<Rightarrow> None
           | Some end \<Rightarrow> Some (start, end)))"

section \<open>The rest of \<^verbatim>\<open>slice_noise_reduced_audio_files_byt\<close>\<close>

text \<open>
  The lexical end extension (source lines 116 to 119): \<^verbatim>\<open>word[-1]\<close> raises on the empty
  word; \<open>rms_size\<close> is \<^verbatim>\<open>rms_sound.size\<close>.
\<close>

definition extend_end :: "string \<Rightarrow> int \<Rightarrow> int \<Rightarrow> error + int" where
  "extend_end word rms_size end =
     (case py_index word (- 1) of
        Inl e \<Rightarrow> Inl e
      | Inr c \<Rightarrow>
          if c \<noteq> CHR ''a'' \<and> c \<noteq> CHR ''e'' \<and> c \<noteq> CHR ''i'' \<and> c \<noteq> CHR ''o'' \<and> c \<noteq> CHR ''u''
          then (let end' = end + 12 in Inr (if end' \<ge> rms_size then rms_size - 1 else end'))
          else Inr end)"

text \<open>
  The value returned by the function: a waveform with the onset and the duration, or
  the three integers \<open>-1\<close>.
\<close>

datatype sound = Samples "real list" | Scalar int

text \<open>
  Source lines 80, 81 and 121 to 123. The table \<open>t\<close> has one entry for each sample of
  the denoised signal, which is as long as \<open>audio_file\<close>; \<^verbatim>\<open>t[end]\<close> is read before
  \<^verbatim>\<open>t[start]\<close>.
\<close>

definition cut :: "real list \<Rightarrow> int \<Rightarrow> int \<Rightarrow> error + (sound \<times> real \<times> real)" where
  "cut audio_file start end =
     (let frames = map int [0..<length audio_file];
          t = frames_to_time frames LIBROSA_DEFAULT_SR HOP_LENGTH;
          sound_s = py_slice audio_file (start * HOP_LENGTH) (end * HOP_LENGTH + FRAME_SIZE)
      in case py_index t end of
           Inl e \<Rightarrow> Inl e
         | Inr t_end \<Rightarrow>
             (case py_index t start of
                Inl e \<Rightarrow> Inl e
              | Inr t_start \<Rightarrow> Inr (Samples sound_s, t_start, t_end - t_start)))"

text \<open>Min-max normalisation of the envelope (source line 78).\<close>

definition normalise :: "real list \<Rightarrow> real list" where
  "normalise rms = map (\<lambda>x. (x - np_min rms) / (np_max rms - np_min rms)) rms"

text \<open>
  The frame boundaries after the lexical end extension, from the envelope the search
  runs on (source lines 83 to 119).
\<close>

definition frame_bounds :: "real list \<Rightarrow> string \<Rightarrow> real \<Rightarrow> real \<Rightarrow> int \<Rightarrow> (error + int \<times> int) option" where
  "frame_bounds rms word threshold threshold_end cap =
     (case boundary_search rms threshold threshold_end cap of
        None \<Rightarrow> None
      | Some (start, end) \<Rightarrow>
          Some (case extend_end word (int (length rms)) end of
                  Inl e \<Rightarrow> Inl e
                | Inr end' \<Rightarrow> Inr (start, end')))"

text \<open>
  The function from its envelope on (source lines 72 to 123). \<^verbatim>\<open>np.max\<close> raises
  \<^verbatim>\<open>ValueError\<close> on an empty array.
\<close>

definition slice_envelope ::
  "real list \<Rightarrow> real list \<Rightarrow> string \<Rightarrow> real \<Rightarrow> real \<Rightarrow> bool \<Rightarrow> (error + sound \<times> real \<times> real) option" where
  "slice_envelope audio_file rms_sound word threshold threshold_end normalize_rms =
     (if rms_sound = [] then Some (Inl ValueError)
      else if np_max rms_sound - np_min rms_sound = 0 then Some (Inr (Scalar (- 1), - 1, - 1))
      else
        (let rms = (if normalize_rms then normalise rms_sound else rms_sound) in
         case frame_bounds rms word threshold threshold_end MAX_PAUSE_FRAMES of
           None \<Rightarrow> None
         | Some (Inl e) \<Rightarrow> Some (Inl e)
         | Some (Inr (start, end)) \<Rightarrow> Some (cut audio_file start end)))"

text \<open>
  Source lines 66 to 70 call \<^verbatim>\<open>noisereduce\<close> twice and \<^verbatim>\<open>librosa.feature.rms\<close>; they
  are library code on floating-point arrays and enter as the parameter \<open>rms_of\<close>, the
  envelope of a waveform at a sample rate. \<open>files_name\<close> is not used by the source.
\<close>

definition slice_noise_reduced_audio_files_byt ::
  "(real list \<Rightarrow> real \<Rightarrow> real list) \<Rightarrow> real list \<Rightarrow> real \<Rightarrow> string \<Rightarrow> string \<Rightarrow> real \<Rightarrow> real \<Rightarrow> bool
     \<Rightarrow> (error + sound \<times> real \<times> real) option" where
  "slice_noise_reduced_audio_files_byt rms_of audio_file audio_rate files_name word
       threshold threshold_end normalize_rms =
     slice_envelope audio_file (rms_of audio_file audio_rate) word threshold threshold_end normalize_rms"

section \<open>Strings, paths and the file name pattern\<close>

text \<open>
  File names and words are strings of 8-bit characters. \<^verbatim>\<open>str.lower\<close> is modelled on
  the ASCII letters, where it adds 32 to the code of an upper-case letter, and leaves
  every other character as it is.
\<close>

definition lower_char :: "char \<Rightarrow> char" where
  "lower_char c =
     (if 65 \<le> (of_char c :: nat) \<and> (of_char c :: nat) \<le> 90 then char_of (of_char c + 32 :: nat) else c)"

definition lower :: "string \<Rightarrow> string" where
  "lower s = map lower_char s"

definition endswith :: "string \<Rightarrow> string \<Rightarrow> bool" where
  "endswith s suf = suffix suf s"

text \<open>\<^verbatim>\<open>os.path.join\<close> of two components, as \<^verbatim>\<open>posixpath\<close> defines it.\<close>

definition path_join :: "string \<Rightarrow> string \<Rightarrow> string" where
  "path_join a b =
     (if prefix ''/'' b then b
      else if a = [] \<or> endswith a ''/'' then a @ b
      else a @ ''/'' @ b)"

text \<open>
  \<^verbatim>\<open>re.search(r'\((.*?)\)', file_name)\<close> and \<^verbatim>\<open>match.group(1)\<close>: from the leftmost
  opening parenthesis that is followed, with no line feed in between, by a closing one,
  the characters up to the first closing parenthesis. \<open>None\<close> is no match.
\<close>

fun lazy_group :: "string \<Rightarrow> string option" where
  "lazy_group [] = None"
| "lazy_group (c # cs) =
     (if c = CHR '')'' then Some []
      else if c = CHR 0x0A then None
      else map_option (Cons c) (lazy_group cs))"

fun re_search :: "string \<Rightarrow> string option" where
  "re_search [] = None"
| "re_search (c # cs) =
     (if c = CHR ''(''
      then (case lazy_group cs of Some word \<Rightarrow> Some word | None \<Rightarrow> re_search cs)
      else re_search cs)"

text \<open>\<^verbatim>\<open>int(x)\<close> on a float truncates toward zero.\<close>

definition py_int :: "real \<Rightarrow> int" where
  "py_int x = (if x \<ge> 0 then \<lfloor>x\<rfloor> else \<lceil>x\<rceil>)"

section \<open>\<^verbatim>\<open>process_wav_file\<close>\<close>

text \<open>
  What the program takes from outside itself: the audio files (\<^verbatim>\<open>librosa.load\<close>, which
  raises on a file it cannot decode), the envelope computation, the directory walk, the
  directory copy (\<open>Some\<close> of the exception when it raises), \<^verbatim>\<open>os.path.relpath\<close>,
  \<^verbatim>\<open>repr\<close>, \<^verbatim>\<open>unidecode\<close> and the stimuli table of \<^verbatim>\<open>pd.read_excel\<close>.
\<close>

record world =
  librosa_load :: "string \<Rightarrow> error + real list \<times> real"
  envelope_of :: "real list \<Rightarrow> real \<Rightarrow> real list"
  os_walk :: "string \<Rightarrow> (string \<times> string list) list"
  shutil_copytree :: "string \<Rightarrow> string \<Rightarrow> error option"
  os_relpath :: "string \<Rightarrow> string \<Rightarrow> string"
  py_repr :: "string \<Rightarrow> string"
  unidecode :: "string \<Rightarrow> string"
  read_excel :: "string \<Rightarrow> error + (string \<times> pyfloat) list"

text \<open>
  The acceptance test (source line 148), on floats: a comparison with \<^verbatim>\<open>nan\<close> is false,
  so a \<^verbatim>\<open>nan\<close> value fails none of the four tests.
\<close>

definition to_include :: "pyfloat \<Rightarrow> pyfloat \<Rightarrow> bool" where
  "to_include real_onset total_duration =
     (\<not> (pf_less (Num 2) real_onset \<or> pf_less real_onset (Num (- 0.5))
         \<or> pf_less total_duration (Num 0.3) \<or> pf_less (Num 3) total_duration))"

text \<open>
  What a call of \<^verbatim>\<open>process_wav_file\<close> leaves behind: the value it returns (\<open>None\<close> is
  Python's \<^verbatim>\<open>None\<close>, otherwise the features and the flag) and the file that
  \<^verbatim>\<open>sf.write\<close> wrote, if any: its path, its samples and its sample rate. The write
  itself is taken to succeed, and the message printed for an excluded file is left out.
\<close>

record outcome =
  returned :: "((string \<times> pyfloat \<times> real) \<times> bool) option"
  written :: "(string \<times> sound \<times> int) option"

definition process_wav_file ::
  "world \<Rightarrow> string \<Rightarrow> string \<Rightarrow> string \<Rightarrow> (string \<rightharpoonup> pyfloat) \<Rightarrow> (error + outcome) option" where
  "process_wav_file w input_file output_directory relative_path robot_times =
     (if \<not> endswith input_file ''.wav'' then Some (Inr \<lparr>returned = None, written = None\<rparr>)
      else
        (case librosa_load w input_file of
           Inl e \<Rightarrow> Some (Inl e)
         | Inr (audio_data, sample_rate) \<Rightarrow>
             (case re_search input_file of
                None \<Rightarrow> Some (Inl AttributeError)
              | Some word \<Rightarrow>
                  (case slice_noise_reduced_audio_files_byt (envelope_of w) audio_data sample_rate
                          input_file word THRESHOLD THRESHOLD_END NORMALIZE_RMS of
                     None \<Rightarrow> None
                   | Some (Inl e) \<Rightarrow> Some (Inl e)
                   | Some (Inr (sliced_audio_file, onset, total_duration)) \<Rightarrow>
                       (case robot_times word of
                          None \<Rightarrow> Some (Inl KeyError)
                        | Some reference \<Rightarrow>
                            (let real_onset = pf_sub (Num onset) reference;
                                 incl = to_include real_onset (Num total_duration);
                                 output_file = path_join output_directory relative_path;
                                 features = (py_repr w output_file, real_onset, total_duration)
                             in Some (Inr \<lparr>returned = Some (features, incl),
                                           written = (if incl
                                                      then Some (output_file, sliced_audio_file, py_int sample_rate)
                                                      else None)\<rparr>)))))))"

text \<open>
  The acceptance rule as the specification words it, on numbers: the reaction time in
  the closed interval from \<open>-0.5\<close> to \<open>2\<close> seconds and the total duration in the closed
  interval from \<open>0.3\<close> to \<open>3\<close> seconds.
\<close>

definition acceptance_window :: "real \<Rightarrow> real \<Rightarrow> bool" where
  "acceptance_window reaction_time total_duration =
     (- 0.5 \<le> reaction_time \<and> reaction_time \<le> 2 \<and> 0.3 \<le> total_duration \<and> total_duration \<le> 3)"

section \<open>\<^verbatim>\<open>copy_directory_with_wav_processing\<close> and \<^verbatim>\<open>main\<close>\<close>

text \<open>
  The state of the batch loop: the rows of the report, the files written so far and the
  counter. The progress messages are not modelled.
\<close>

record batch =
  slice_features :: "(string \<times> pyfloat \<times> real) list"
  written_files :: "(string \<times> sound \<times> int) list"
  count :: int

text \<open>
  The body of the inner loop (source lines 182 to 197). Unpacking \<^verbatim>\<open>None\<close> into two
  names raises \<^verbatim>\<open>TypeError\<close>.
\<close>

definition visit_file ::
  "world \<Rightarrow> string \<Rightarrow> string \<Rightarrow> (string \<rightharpoonup> pyfloat) \<Rightarrow> string \<Rightarrow> string \<Rightarrow> batch \<Rightarrow> (error + batch) option" where
  "visit_file w source_directory destination_directory robot_times root_dir file b =
     (if endswith (lower file) ''.wav'' then
        (let file_path = path_join root_dir file;
             relative_path = os_relpath w file_path source_directory
         in case process_wav_file w file_path destination_directory relative_path robot_times of
              None \<Rightarrow> None
            | Some (Inl e) \<Rightarrow> Some (Inl e)
            | Some (Inr r) \<Rightarrow>
                (case returned r of
                   None \<Rightarrow> Some (Inl TypeError)
                 | Some (file_features, incl) \<Rightarrow>
                     Some (Inr \<lparr>slice_features =
                                   (if incl then slice_features b @ [file_features] else slice_features b),
                                 written_files = written_files b @ (case written r of None \<Rightarrow> [] | Some f \<Rightarrow> [f]),
                                 count = count b + 1\<rparr>)))
      else Some (Inr b))"

fun visit_files ::
  "world \<Rightarrow> string \<Rightarrow> string \<Rightarrow> (string \<rightharpoonup> pyfloat) \<Rightarrow> string \<Rightarrow> string list \<Rightarrow> batch \<Rightarrow> (error + batch) option" where
  "visit_files w source_directory destination_directory robot_times root_dir [] b = Some (Inr b)"
| "visit_files w source_directory destination_directory robot_times root_dir (file # files) b =
     (case visit_file w source_directory destination_directory robot_times root_dir file b of
        None \<Rightarrow> None
      | Some (Inl e) \<Rightarrow> Some (Inl e)
      | Some (Inr b') \<Rightarrow> visit_files w source_directory destination_directory robot_times root_dir files b')"

fun visit_dirs ::
  "world \<Rightarrow> string \<Rightarrow> string \<Rightarrow> (string \<rightharpoonup> pyfloat) \<Rightarrow> (string \<times> string list) list \<Rightarrow> batch \<Rightarrow> (error + batch) option" where
  "visit_dirs w source_directory destination_directory robot_times [] b = Some (Inr b)"
| "visit_dirs w source_directory destination_directory robot_times ((root_dir, files) # dirs) b =
     (case visit_files w source_directory destination_directory robot_times root_dir files b of
        None \<Rightarrow> None
      | Some (Inl e) \<Rightarrow> Some (Inl e)
      | Some (Inr b') \<Rightarrow> visit_dirs w source_directory destination_directory robot_times dirs b')"

text \<open>
  The function returns the report; the model returns the final loop state, whose
  \<open>slice_features\<close> is the report. No exception is caught anywhere in the source.
\<close>

definition copy_directory_with_wav_processing ::
  "world \<Rightarrow> string \<Rightarrow> string \<Rightarrow> (string \<rightharpoonup> pyfloat) \<Rightarrow> (error + batch) option" where
  "copy_directory_with_wav_processing w source_directory destination_directory robot_times =
     (case shutil_copytree w source_directory destination_directory of
        Some e \<Rightarrow> Some (Inl e)
      | None \<Rightarrow>
          visit_dirs w source_directory destination_directory robot_times (os_walk w source_directory)
            \<lparr>slice_features = [], written_files = [], count = 0\<rparr>)"

text \<open>
  A Python dictionary keeps the position of a key's first insertion and the value of its
  last one. \<^verbatim>\<open>to_dict\<close> (source line 206) builds one from the rows of the table.
\<close>

fun dict_set :: "('k \<times> 'v) list \<Rightarrow> 'k \<Rightarrow> 'v \<Rightarrow> ('k \<times> 'v) list" where
  "dict_set [] k v = [(k, v)]"
| "dict_set ((k', v') # d) k v = (if k' = k then (k, v) # d else (k', v') # dict_set d k v)"

definition to_dict :: "('k \<times> 'v) list \<Rightarrow> ('k \<times> 'v) list" where
  "to_dict rows = fold (\<lambda>(k, v) d. dict_set d k v) rows []"

text \<open>The dictionary comprehension of source line 207, read as a lookup table.\<close>

definition normalise_keys :: "world \<Rightarrow> (string \<times> pyfloat) list \<Rightarrow> (string \<rightharpoonup> pyfloat)" where
  "normalise_keys w items = fold (\<lambda>(key, val) m. m(lower (unidecode w key) \<mapsto> val)) items Map.empty"

definition source_directory_param :: string where
  "source_directory_param = ''../exampleNewData''"

definition destination_directory_param :: string where
  "destination_directory_param = ''../sliced_exampleFiles''"

definition stimuli_path_param :: string where
  "stimuli_path_param = ''../Excels/Stimuli Duration.xlsx''"

text \<open>\<^verbatim>\<open>main\<close> up to the call that writes the report.\<close>

definition main :: "world \<Rightarrow> (error + batch) option" where
  "main w =
     (case read_excel w stimuli_path_param of
        Inl e \<Rightarrow> Some (Inl e)
      | Inr rows \<Rightarrow>
          copy_directory_with_wav_processing w source_directory_param destination_directory_param
            (normalise_keys w (to_dict rows)))"

section \<open>Runs of frames below the threshold\<close>

text \<open>
  The \<open>k\<close> frames met from \<open>start\<close> on in the direction of travel are all below the
  threshold: \<open>start, start - 1, ...\<close> to the left, \<open>end, end + 1, ...\<close> to the right.
\<close>

fun pause_left :: "real list \<Rightarrow> real \<Rightarrow> int \<Rightarrow> nat \<Rightarrow> bool" where
  "pause_left rms threshold start 0 = True"
| "pause_left rms threshold start (Suc k) =
     (rms ! nat start < threshold \<and> pause_left rms threshold (start - 1) k)"

fun pause_right :: "real list \<Rightarrow> real \<Rightarrow> int \<Rightarrow> nat \<Rightarrow> bool" where
  "pause_right rms threshold_end end 0 = True"
| "pause_right rms threshold_end end (Suc k) =
     (rms ! nat end < threshold_end \<and> pause_right rms threshold_end (end + 1) k)"

section \<open>Concrete inputs\<close>

text \<open>The envelope of the specification's worked example.\<close>

definition worked_envelope :: "real list" where
  "worked_envelope = [0.01, 0.02, 0.5, 0.9, 0.4, 0.02, 0.01, 0.01, 0.6, 0.05]"

text \<open>
  An envelope whose first and last frames are loud: normalised it is
  \<open>[1/2, 0, 1, 1/2]\<close>, with a one-frame pause on the left of the loudest frame.
\<close>

definition loud_edges :: "real list" where
  "loud_edges = [1, 0, 2, 1]"

text \<open>
  A clip of 1000 samples, and three envelopes standing for what the denoising and the RMS
  computation return: one with a single loud frame, the one with loud edges, and a
  constant one.
\<close>

definition clip :: "real list" where
  "clip = map real [0..<1000]"

definition peak_envelope :: "real list \<Rightarrow> real \<Rightarrow> real list" where
  "peak_envelope audio rate = [0, 0, 1, 0]"

definition loud_envelope :: "real list \<Rightarrow> real \<Rightarrow> real list" where
  "loud_envelope audio rate = loud_edges"

definition flat_envelope :: "real list \<Rightarrow> real \<Rightarrow> real list" where
  "flat_envelope audio rate = [1/2, 1/2, 1/2, 1/2]"

text \<open>
  A small recording session: one directory with one file, every file readable at the
  rate \<^verbatim>\<open>librosa.load\<close> resamples to, and a stimuli table with one word.
\<close>

definition lab :: world where
  "lab = \<lparr>librosa_load = (\<lambda>f. Inr (clip, 22050)),
          envelope_of = peak_envelope,
          os_walk = (\<lambda>d. [(d, [''p1(casa).wav''])]),
          shutil_copytree = (\<lambda>s d. None),
          os_relpath = (\<lambda>p d. drop (length d + 1) p),
          py_repr = (\<lambda>s. s),
          unidecode = (\<lambda>s. s),
          read_excel = (\<lambda>p. Inr [(''Casa'', Num (4/5))])\<rparr>"

text \<open>The same session with the word of the file name spelled as in the table.\<close>

definition lab_capital :: world where
  "lab_capital = lab\<lparr>os_walk := (\<lambda>d. [(d, [''p1(Casa).wav''])])\<rparr>"

text \<open>Three files, the second of which cannot be read.\<close>

definition lab_unreadable :: world where
  "lab_unreadable =
     lab\<lparr>os_walk := (\<lambda>d. [(d, [''p1(casa).wav'', ''p2(casa).wav'', ''p3(casa).wav''])]),
         librosa_load := (\<lambda>f. if f = ''rec/p2(casa).wav'' then Inl LoadError else Inr (clip, 22050))\<rparr>"

text \<open>A silent recording, of a word of the table and of a word that is not in it.\<close>

definition lab_silent :: world where
  "lab_silent = lab\<lparr>envelope_of := flat_envelope\<rparr>"

text \<open>A file whose extension is in upper case.\<close>

definition lab_upper :: world where
  "lab_upper = lab\<lparr>os_walk := (\<lambda>d. [(d, [''p1(casa).wav'', ''p2(casa).WAV''])])\<rparr>"

definition casa_table :: "string \<rightharpoonup> pyfloat" where
  "casa_table = [''casa'' \<mapsto> Num (4/5)]"

definition luna_table :: "string \<rightharpoonup> pyfloat" where
  "luna_table = [''luna'' \<mapsto> Num 1]"

text \<open>
  A recording of 16000 samples in which the word is spoken: 63 frames, silent but for
  frames 30 to 59. The utterance starts late enough and lasts long enough for the file to
  pass the acceptance test against the reference duration of the table.
\<close>

definition long_clip :: "real list" where
  "long_clip = map real [0..<16000]"

definition spoken_envelope :: "real list \<Rightarrow> real \<Rightarrow> real list" where
  "spoken_envelope audio rate = replicate 30 0 @ replicate 30 1 @ replicate 3 0"

definition lab_spoken :: world where
  "lab_spoken = lab\<lparr>librosa_load := (\<lambda>f. Inr (long_clip, 22050)), envelope_of := spoken_envelope\<rparr>"

text \<open>The same recording with a stimuli table whose duration cell is blank.\<close>

definition lab_blank :: world where
  "lab_blank = lab_spoken\<lparr>read_excel := (\<lambda>p. Inr [(''casa'', NaN)])\<rparr>"

definition blank_table :: "string \<rightharpoonup> pyfloat" where
  "blank_table = [''casa'' \<mapsto> NaN]"

text \<open>A table whose reference duration puts the reaction time of that recording at \<open>-0.5\<close>.\<close>

definition corner_table :: "string \<rightharpoonup> pyfloat" where
  "corner_table = [''casa'' \<mapsto> Num (7424 / 22050 + 1 / 2)]"

section \<open>The inner probes\<close>

text \<open>
  A probe that starts at \<open>cnt\<close> inside a run of frames below the threshold counts up to
  the end \<open>k\<close> of the run: the cap, the edge of the envelope, or the first frame that is
  not below the threshold.
\<close>

lemma probe_left_run:
  "cnt \<le> k \<Longrightarrow> k \<le> cap \<Longrightarrow> k \<le> start + 1
   \<Longrightarrow> (\<And>j. cnt \<le> j \<Longrightarrow> j < k \<Longrightarrow> rms ! nat (start - j) < threshold)
   \<Longrightarrow> k = cap \<or> k = start + 1 \<or> \<not> rms ! nat (start - k) < threshold
   \<Longrightarrow> probe_left rms threshold cap start cnt = k"
proof (induction rms threshold cap start cnt rule: probe_left.induct)
  case (1 rms threshold cap start cnt)
  show ?case
  proof (cases "cnt = k")
    case True
    with "1.prems"(5) have "\<not> (start - cnt \<ge> 0 \<and> rms ! nat (start - cnt) < threshold \<and> cnt < cap)"
      by auto
    then show ?thesis using True by (subst probe_left.simps) auto
  next
    case False
    with "1.prems" have lt: "cnt < k" by simp
    with "1.prems" have c: "start - cnt \<ge> 0 \<and> rms ! nat (start - cnt) < threshold \<and> cnt < cap"
      by auto
    have "probe_left rms threshold cap start (cnt + 1) = k"
      using c lt "1.prems" by (intro "1.IH") auto
    then show ?thesis using c by (subst probe_left.simps) simp
  qed
qed

lemma probe_right_run:
  "cnt \<le> k \<Longrightarrow> k \<le> cap \<Longrightarrow> end + k \<le> int (length rms)
   \<Longrightarrow> (\<And>j. cnt \<le> j \<Longrightarrow> j < k \<Longrightarrow> rms ! nat (end + j) < threshold)
   \<Longrightarrow> k = cap \<or> end + k = int (length rms) \<or> \<not> rms ! nat (end + k) < threshold
   \<Longrightarrow> probe_right rms threshold cap end cnt = k"
proof (induction rms threshold cap "end" cnt rule: probe_right.induct)
  case (1 rms threshold cap e cnt)
  show ?case
  proof (cases "cnt = k")
    case True
    with "1.prems"(5) have "\<not> (e + cnt < int (length rms) \<and> rms ! nat (e + cnt) < threshold \<and> cnt < cap)"
      by auto
    then show ?thesis using True by (subst probe_right.simps) auto
  next
    case False
    with "1.prems" have lt: "cnt < k" by simp
    with "1.prems" have c: "e + cnt < int (length rms) \<and> rms ! nat (e + cnt) < threshold \<and> cnt < cap"
      by auto
    have "probe_right rms threshold cap e (cnt + 1) = k"
      using c lt "1.prems" by (intro "1.IH") auto
    then show ?thesis using c by (subst probe_right.simps) simp
  qed
qed

text \<open>One iteration on a frame above the threshold, and the exit of each loop.\<close>

lemma expand_left_step:
  "0 \<le> s \<Longrightarrow> th < rms ! nat s \<Longrightarrow> expand_left rms th cap s = expand_left rms th cap (s - 1)"
  by (subst expand_left.simps) simp

lemma expand_right_step:
  "s < int (length rms) \<Longrightarrow> th < rms ! nat s \<Longrightarrow> expand_right rms th cap s = expand_right rms th cap (s + 1)"
  by (subst expand_right.simps) simp

lemma expand_left_exit: "s < 0 \<Longrightarrow> expand_left rms th cap s = Some s"
  by (subst expand_left.simps) simp

lemma expand_right_exit: "int (length rms) \<le> s \<Longrightarrow> expand_right rms th cap s = Some s"
  by (subst expand_right.simps) simp

text \<open>
  On a frame equal to the threshold, with a cap other than 0, an iteration leaves the
  index unchanged.
\<close>

lemma expand_left_stuck_step:
  assumes ih: "\<And>rms threshold cap start y. f rms threshold cap start = Some y
                 \<Longrightarrow> \<not> (0 \<le> start \<and> rms ! nat start = threshold \<and> cap \<noteq> 0)"
    and body: "(if start \<ge> 0 then
        (if rms ! nat start > threshold then f rms threshold cap (start - 1)
         else
           (let cnt = probe_left rms threshold cap start 0 in
            if start - cnt = -1 \<or> cnt = cap then Some start
            else f rms threshold cap (start - cnt)))
      else Some start) = Some (y :: int)"
  shows "\<not> (0 \<le> start \<and> rms ! nat start = threshold \<and> cap \<noteq> 0)"
proof
  assume s: "0 \<le> start \<and> rms ! nat start = threshold \<and> cap \<noteq> 0"
  then have p: "probe_left rms threshold cap start 0 = 0"
    by (subst probe_left.simps) simp
  from body s p have "f rms threshold cap start = Some y"
    by (simp add: Let_def)
  from ih[OF this] s show False by simp
qed

lemma expand_left_stuck:
  assumes "0 \<le> start" "rms ! nat start = threshold" "cap \<noteq> 0"
  shows "expand_left rms threshold cap start = None"
proof (rule ccontr)
  assume "expand_left rms threshold cap start \<noteq> None"
  then obtain y where y: "expand_left rms threshold cap start = Some y" by auto
  have "\<not> (0 \<le> start \<and> rms ! nat start = threshold \<and> cap \<noteq> 0)"
    by (rule expand_left.raw_induct
          [where P = "\<lambda>rms threshold cap start y. \<not> (0 \<le> start \<and> rms ! nat start = threshold \<and> cap \<noteq> 0)", OF _ y])
       (rule expand_left_stuck_step)
  with assms show False by simp
qed

lemma expand_right_stuck_step:
  assumes ih: "\<And>rms threshold cap e y. f rms threshold cap e = Some y
                 \<Longrightarrow> \<not> (e < int (length rms) \<and> rms ! nat e = threshold \<and> cap \<noteq> 0)"
    and body: "(if e < int (length rms) then
        (if rms ! nat e > threshold then f rms threshold cap (e + 1)
         else
           (let cnt = probe_right rms threshold cap e 0 in
            if e + cnt = int (length rms) \<or> cnt = cap then Some e
            else f rms threshold cap (e + cnt)))
      else Some e) = Some (y :: int)"
  shows "\<not> (e < int (length rms) \<and> rms ! nat e = threshold \<and> cap \<noteq> 0)"
proof
  assume s: "e < int (length rms) \<and> rms ! nat e = threshold \<and> cap \<noteq> 0"
  then have p: "probe_right rms threshold cap e 0 = 0"
    by (subst probe_right.simps) simp
  from body s p have "f rms threshold cap e = Some y"
    by (simp add: Let_def)
  from ih[OF this] s show False by simp
qed

lemma expand_right_stuck:
  assumes "e < int (length rms)" "rms ! nat e = threshold" "cap \<noteq> 0"
  shows "expand_right rms threshold cap e = None"
proof (rule ccontr)
  assume "expand_right rms threshold cap e \<noteq> None"
  then obtain y where y: "expand_right rms threshold cap e = Some y" by auto
  have "\<not> (e < int (length rms) \<and> rms ! nat e = threshold \<and> cap \<noteq> 0)"
    by (rule expand_right.raw_induct
          [where P = "\<lambda>rms threshold cap e y. \<not> (e < int (length rms) \<and> rms ! nat e = threshold \<and> cap \<noteq> 0)", OF _ y])
       (rule expand_right_stuck_step)
  with assms show False by simp
qed

section \<open>Termination of the expansions\<close>

text \<open>
  When the cap is not negative and no frame of the envelope equals the threshold, each
  expansion returns: from a frame below the threshold the probe counts at least one
  frame, so every iteration that does not end the loop moves the index. The left result
  lies between \<open>-1\<close> and the starting frame, the right one between the starting frame
  and the length of the envelope.
\<close>

lemma probe_left_ge: "cnt \<le> probe_left rms th cap s cnt"
proof (induction rms th cap s cnt rule: probe_left.induct)
  case (1 rms th cap s cnt)
  show ?case
  proof (cases "s - cnt \<ge> 0 \<and> rms ! nat (s - cnt) < th \<and> cnt < cap")
    case True
    then have "cnt + 1 \<le> probe_left rms th cap s (cnt + 1)" by (rule "1.IH")
    with True show ?thesis by (subst probe_left.simps) simp
  next
    case False
    then show ?thesis by (subst probe_left.simps) auto
  qed
qed

lemma probe_left_le: "cnt \<le> s + 1 \<Longrightarrow> probe_left rms th cap s cnt \<le> s + 1"
proof (induction rms th cap s cnt rule: probe_left.induct)
  case (1 rms th cap s cnt)
  show ?case
  proof (cases "s - cnt \<ge> 0 \<and> rms ! nat (s - cnt) < th \<and> cnt < cap")
    case True
    then have "probe_left rms th cap s (cnt + 1) \<le> s + 1" by (intro "1.IH") auto
    with True show ?thesis by (subst probe_left.simps) simp
  next
    case False
    then show ?thesis using "1.prems" by (subst probe_left.simps) auto
  qed
qed

lemma probe_left_pos:
  assumes "0 \<le> s" "rms ! nat s < th" "0 < cap"
  shows "1 \<le> probe_left rms th cap s 0"
proof -
  have "probe_left rms th cap s 0 = probe_left rms th cap s (0 + 1)"
    using assms by (subst probe_left.simps) simp
  also have "\<dots> \<ge> 0 + 1" by (rule probe_left_ge)
  finally show ?thesis by simp
qed

lemma probe_left_cap0: "cap \<le> 0 \<Longrightarrow> probe_left rms th cap s 0 = 0"
  by (subst probe_left.simps) simp

lemma probe_right_ge: "cnt \<le> probe_right rms th cap s cnt"
proof (induction rms th cap s cnt rule: probe_right.induct)
  case (1 rms th cap s cnt)
  show ?case
  proof (cases "s + cnt < int (length rms) \<and> rms ! nat (s + cnt) < th \<and> cnt < cap")
    case True
    then have "cnt + 1 \<le> probe_right rms th cap s (cnt + 1)" by (rule "1.IH")
    with True show ?thesis by (subst probe_right.simps) simp
  next
    case False
    then show ?thesis by (subst probe_right.simps) auto
  qed
qed

lemma probe_right_le:
  "s + cnt \<le> int (length rms) \<Longrightarrow> s + probe_right rms th cap s cnt \<le> int (length rms)"
proof (induction rms th cap s cnt rule: probe_right.induct)
  case (1 rms th cap s cnt)
  show ?case
  proof (cases "s + cnt < int (length rms) \<and> rms ! nat (s + cnt) < th \<and> cnt < cap")
    case True
    then have "s + probe_right rms th cap s (cnt + 1) \<le> int (length rms)" by (intro "1.IH") auto
    with True show ?thesis by (subst probe_right.simps) simp
  next
    case False
    then show ?thesis using "1.prems" by (subst probe_right.simps) auto
  qed
qed

lemma probe_right_pos:
  assumes "s < int (length rms)" "rms ! nat s < th" "0 < cap"
  shows "1 \<le> probe_right rms th cap s 0"
proof -
  have "probe_right rms th cap s 0 = probe_right rms th cap s (0 + 1)"
    using assms by (subst probe_right.simps) simp
  also have "\<dots> \<ge> 0 + 1" by (rule probe_right_ge)
  finally show ?thesis by simp
qed

lemma probe_right_cap0: "cap \<le> 0 \<Longrightarrow> probe_right rms th cap s 0 = 0"
  by (subst probe_right.simps) simp

lemma expand_left_returns:
  assumes cap: "0 \<le> cap" and ne: "\<forall>i < length rms. rms ! i \<noteq> th"
    and s: "- 1 \<le> s" "s < int (length rms)"
  shows "\<exists>r. expand_left rms th cap s = Some r \<and> - 1 \<le> r \<and> r \<le> s"
  using s
proof (induction "nat (s + 1)" arbitrary: s rule: less_induct)
  case less
  show ?case
  proof (cases "s < 0")
    case True
    then have "expand_left rms th cap s = Some s" by (rule expand_left_exit)
    with less.prems show ?thesis by simp
  next
    case False
    then have s0: "0 \<le> s" by simp
    show ?thesis
    proof (cases "th < rms ! nat s")
      case True
      have "\<exists>r. expand_left rms th cap (s - 1) = Some r \<and> - 1 \<le> r \<and> r \<le> s - 1"
        using s0 less.prems by (intro less.hyps) auto
      moreover have "expand_left rms th cap s = expand_left rms th cap (s - 1)"
        using s0 True by (rule expand_left_step)
      ultimately show ?thesis by auto
    next
      case False
      moreover have "rms ! nat s \<noteq> th" using ne s0 less.prems by simp
      ultimately have below: "rms ! nat s < th" by simp
      define k where "k = probe_left rms th cap s 0"
      have eq: "expand_left rms th cap s =
                  (if s - k = - 1 \<or> k = cap then Some s else expand_left rms th cap (s - k))"
        using s0 False by (subst expand_left.simps) (simp add: Let_def k_def)
      show ?thesis
      proof (cases "s - k = - 1 \<or> k = cap")
        case True
        with eq s0 show ?thesis by simp
      next
        case nocut: False
        have "k \<le> s + 1" unfolding k_def by (rule probe_left_le) (use s0 in simp)
        moreover have "1 \<le> k"
        proof (cases "0 < cap")
          case True
          with s0 below show ?thesis unfolding k_def by (rule probe_left_pos)
        next
          case False
          with cap have "cap = 0" by simp
          then have "k = cap" by (simp add: k_def probe_left_cap0)
          with nocut show ?thesis by simp
        qed
        ultimately have "\<exists>r. expand_left rms th cap (s - k) = Some r \<and> - 1 \<le> r \<and> r \<le> s - k"
          using less.prems s0 by (intro less.hyps) auto
        with eq nocut \<open>1 \<le> k\<close> show ?thesis by auto
      qed
    qed
  qed
qed

lemma expand_right_returns:
  assumes cap: "0 \<le> cap" and ne: "\<forall>i < length rms. rms ! i \<noteq> th"
    and s: "0 \<le> s" "s \<le> int (length rms)"
  shows "\<exists>r. expand_right rms th cap s = Some r \<and> s \<le> r \<and> r \<le> int (length rms)"
  using s
proof (induction "nat (int (length rms) - s)" arbitrary: s rule: less_induct)
  case less
  show ?case
  proof (cases "int (length rms) \<le> s")
    case True
    then have "expand_right rms th cap s = Some s" by (rule expand_right_exit)
    with less.prems show ?thesis by simp
  next
    case False
    then have sl: "s < int (length rms)" by simp
    show ?thesis
    proof (cases "th < rms ! nat s")
      case True
      have "\<exists>r. expand_right rms th cap (s + 1) = Some r \<and> s + 1 \<le> r \<and> r \<le> int (length rms)"
        using sl less.prems by (intro less.hyps) auto
      moreover have "expand_right rms th cap s = expand_right rms th cap (s + 1)"
        using sl True by (rule expand_right_step)
      ultimately show ?thesis by auto
    next
      case False
      moreover have "rms ! nat s \<noteq> th" using ne sl less.prems by simp
      ultimately have below: "rms ! nat s < th" by simp
      define k where "k = probe_right rms th cap s 0"
      have eq: "expand_right rms th cap s =
                  (if s + k = int (length rms) \<or> k = cap then Some s else expand_right rms th cap (s + k))"
        using sl False by (subst expand_right.simps) (simp add: Let_def k_def)
      show ?thesis
      proof (cases "s + k = int (length rms) \<or> k = cap")
        case True
        with eq sl show ?thesis by simp
      next
        case nocut: False
        have "s + k \<le> int (length rms)" unfolding k_def by (rule probe_right_le) (use sl in simp)
        moreover have "1 \<le> k"
        proof (cases "0 < cap")
          case True
          with sl below show ?thesis unfolding k_def by (rule probe_right_pos)
        next
          case False
          with cap have "cap = 0" by simp
          then have "k = cap" by (simp add: k_def probe_right_cap0)
          with nocut show ?thesis by simp
        qed
        ultimately have "\<exists>r. expand_right rms th cap (s + k) = Some r \<and> s + k \<le> r \<and> r \<le> int (length rms)"
          using less.prems sl by (intro less.hyps) auto
        with eq nocut \<open>1 \<le> k\<close> show ?thesis by auto
      qed
    qed
  qed
qed

text \<open>
  C1. The claim is that each expansion ends after finitely many iterations on every
  envelope, also on one with a frame equal to the threshold. The outer loops test
  \<open>rms[i] > threshold\<close> and the probes test \<open>rms[i] < threshold\<close>, so a frame equal to
  the threshold is neither stepped over nor counted: the probe returns 0, the index does
  not move, and the loop repeats the same iteration for ever (lemmas
  \<open>expand_left_stuck\<close> and \<open>expand_right_stuck\<close>). With the threshold 1 this
  happens at once on every normalised envelope, whose loudest frame is exactly 1: on the
  envelope \<open>[0, 1]\<close> neither expansion returns. With the default threshold it happens
  when a scan reaches a frame of energy 0.015, as frame 1 of \<open>[0, 0.015, 1, 0.015, 0]\<close>
  on the left and frame 3 on the right.
\<close>

theorem expansion_never_returns_on_threshold_frame:
  "expand_left (normalise [0, 1]) 1 MAX_PAUSE_FRAMES (np_argmax (normalise [0, 1])) = None
   \<and> expand_right (normalise [0, 1]) 1 MAX_PAUSE_FRAMES (np_argmax (normalise [0, 1])) = None
   \<and> boundary_search (normalise [0, 1]) 1 1 MAX_PAUSE_FRAMES = None
   \<and> expand_left [0, 0.015, 1, 0.015, 0] THRESHOLD MAX_PAUSE_FRAMES
         (np_argmax [0, 0.015, 1, 0.015, 0]) = None
   \<and> expand_right [0, 0.015, 1, 0.015, 0] THRESHOLD_END MAX_PAUSE_FRAMES
         (np_argmax [0, 0.015, 1, 0.015, 0]) = None"
proof -
  have n: "normalise [0, 1] = [0, 1]"
    by (simp add: normalise_def np_max_def np_min_def)
  have m: "np_argmax [0, 1] = 1"
    by (simp add: np_argmax_def np_max_def)
  have l: "expand_left [0, 1] 1 MAX_PAUSE_FRAMES 1 = None"
    by (rule expand_left_stuck) (simp_all add: MAX_PAUSE_FRAMES_def)
  have r: "expand_right [0, 1] 1 MAX_PAUSE_FRAMES 1 = None"
    by (rule expand_right_stuck) (simp_all add: MAX_PAUSE_FRAMES_def)
  have b: "boundary_search [0, 1] 1 1 MAX_PAUSE_FRAMES = None"
    using m l by (simp add: boundary_search_def)
  have m': "np_argmax [0, 0.015, 1, 0.015, 0] = 2"
    by (simp add: np_argmax_def np_max_def)
  have "expand_left [0, 0.015, 1, 0.015, 0] THRESHOLD MAX_PAUSE_FRAMES 1 = None"
    by (rule expand_left_stuck) (simp_all add: MAX_PAUSE_FRAMES_def THRESHOLD_def)
  then have l': "expand_left [0, 0.015, 1, 0.015, 0] THRESHOLD MAX_PAUSE_FRAMES 2 = None"
    by (subst expand_left_step) (simp_all add: THRESHOLD_def)
  have "expand_right [0, 0.015, 1, 0.015, 0] THRESHOLD_END MAX_PAUSE_FRAMES 3 = None"
    by (rule expand_right_stuck) (simp_all add: MAX_PAUSE_FRAMES_def THRESHOLD_END_def)
  then have r': "expand_right [0, 0.015, 1, 0.015, 0] THRESHOLD_END MAX_PAUSE_FRAMES 2 = None"
    by (subst expand_right_step) (simp_all add: THRESHOLD_END_def)
  show ?thesis using n m l r b m' l' r' by simp
qed

section \<open>Pauses: bridged or final\<close>

lemma pause_left_iff:
  "pause_left rms th s k = (\<forall>j<k. rms ! nat (s - int j) < th)"
proof (induction k arbitrary: s)
  case 0
  show ?case by simp
next
  case (Suc k)
  have "(\<forall>j<Suc k. rms ! nat (s - int j) < th)
          = (rms ! nat s < th \<and> (\<forall>j<k. rms ! nat (s - int (Suc j)) < th))"
    by (auto simp: less_Suc_eq_0_disj)
  also have "\<dots> = (rms ! nat s < th \<and> (\<forall>j<k. rms ! nat (s - 1 - int j) < th))"
    by (simp add: algebra_simps)
  finally show ?case using Suc.IH[of "s - 1"] by simp
qed

lemma pause_right_iff:
  "pause_right rms th s k = (\<forall>j<k. rms ! nat (s + int j) < th)"
proof (induction k arbitrary: s)
  case 0
  show ?case by simp
next
  case (Suc k)
  have "(\<forall>j<Suc k. rms ! nat (s + int j) < th)
          = (rms ! nat s < th \<and> (\<forall>j<k. rms ! nat (s + int (Suc j)) < th))"
    by (auto simp: less_Suc_eq_0_disj)
  also have "\<dots> = (rms ! nat s < th \<and> (\<forall>j<k. rms ! nat (s + 1 + int j) < th))"
    by (simp add: algebra_simps)
  finally show ?case using Suc.IH[of "s + 1"] by simp
qed

lemma pause_left_frames:
  assumes "pause_left rms th s k" "0 \<le> j" "j < int k"
  shows "rms ! nat (s - j) < th"
proof -
  from assms have "nat j < k" by simp
  with assms(1) have "rms ! nat (s - int (nat j)) < th" unfolding pause_left_iff by blast
  with assms(2) show ?thesis by simp
qed

lemma pause_right_frames:
  assumes "pause_right rms th s k" "0 \<le> j" "j < int k"
  shows "rms ! nat (s + j) < th"
proof -
  from assms have "nat j < k" by simp
  with assms(1) have "rms ! nat (s + int (nat j)) < th" unfolding pause_right_iff by blast
  with assms(2) show ?thesis by simp
qed

lemma expand_left_bridge:
  assumes "0 \<le> s" "1 \<le> k" "pause_left rms th s k" "int k < cap" "int k \<le> s"
    "th < rms ! nat (s - int k)"
  shows "expand_left rms th cap s = expand_left rms th cap (s - int k)"
proof -
  have "probe_left rms th cap s 0 = int k"
    using assms pause_left_frames[OF assms(3)] by (intro probe_left_run) auto
  moreover have "\<not> th < rms ! nat s"
    using pause_left_frames[OF assms(3), of 0] assms(2) by simp
  ultimately show ?thesis
    using assms by (subst expand_left.simps) (simp add: Let_def)
qed

lemma expand_left_cut:
  assumes "0 \<le> s" "1 \<le> k" "pause_left rms th s k" "int k \<le> s + 1" "int k \<le> cap"
    "int k = cap \<or> int k = s + 1"
  shows "expand_left rms th cap s = Some s"
proof -
  have "probe_left rms th cap s 0 = int k"
    using assms pause_left_frames[OF assms(3)] by (intro probe_left_run) auto
  moreover have "\<not> th < rms ! nat s"
    using pause_left_frames[OF assms(3), of 0] assms(2) by simp
  ultimately show ?thesis
    using assms by (subst expand_left.simps) (auto simp: Let_def)
qed

lemma expand_right_bridge:
  assumes "0 \<le> s" "1 \<le> k" "pause_right rms th s k" "int k < cap" "s + int k < int (length rms)"
    "th < rms ! nat (s + int k)"
  shows "expand_right rms th cap s = expand_right rms th cap (s + int k)"
proof -
  have "probe_right rms th cap s 0 = int k"
    using assms pause_right_frames[OF assms(3)] by (intro probe_right_run) auto
  moreover have "\<not> th < rms ! nat s"
    using pause_right_frames[OF assms(3), of 0] assms(2) by simp
  ultimately show ?thesis
    using assms by (subst expand_right.simps) (simp add: Let_def)
qed

lemma expand_right_cut:
  assumes "0 \<le> s" "1 \<le> k" "pause_right rms th s k" "s + int k \<le> int (length rms)" "int k \<le> cap"
    "int k = cap \<or> s + int k = int (length rms)"
  shows "expand_right rms th cap s = Some s"
proof -
  have "probe_right rms th cap s 0 = int k"
    using assms pause_right_frames[OF assms(3)] by (intro probe_right_run) auto
  moreover have "\<not> th < rms ! nat s"
    using pause_right_frames[OF assms(3), of 0] assms(2) by simp
  ultimately show ?thesis
    using assms by (subst expand_right.simps) (auto simp: Let_def)
qed

text \<open>
  C4. The claim has two halves. The first holds as stated: a run of \<open>k\<close> frames below
  the threshold, shorter than the cap and followed inside the envelope by a frame above
  the threshold, is skipped in one iteration, and the loop goes on from the frame after
  the run. The second half says that a run as long as the cap, or one that reaches the
  edge of the envelope, ends the expansion at the frame before the run. The source ends
  the expansion there, but leaves the index where the probe started: the boundary is the
  first frame of the run, not the frame before it. The theorem states both halves as the
  source has them, for the left expansion (\<open>s - k\<close> is the frame after the run) and the
  right one (\<open>s + k\<close>).
\<close>

theorem pause_bridged_or_boundary_at_first_pause_frame:
  fixes rms :: "real list"
  assumes "0 \<le> s" and "s < int (length rms)" and "1 \<le> k"
  shows "(pause_left rms th s k \<and> int k < cap \<and> int k \<le> s \<and> th < rms ! nat (s - int k)
            \<longrightarrow> expand_left rms th cap s = expand_left rms th cap (s - int k))
       \<and> (pause_left rms th s k \<and> int k \<le> s + 1 \<and> int k \<le> cap \<and> (int k = cap \<or> int k = s + 1)
            \<longrightarrow> expand_left rms th cap s = Some s)
       \<and> (pause_right rms th s k \<and> int k < cap \<and> s + int k < int (length rms)
              \<and> th < rms ! nat (s + int k)
            \<longrightarrow> expand_right rms th cap s = expand_right rms th cap (s + int k))
       \<and> (pause_right rms th s k \<and> s + int k \<le> int (length rms) \<and> int k \<le> cap
              \<and> (int k = cap \<or> s + int k = int (length rms))
            \<longrightarrow> expand_right rms th cap s = Some s)"
  using assms expand_left_bridge[of s k rms th cap] expand_left_cut[of s k rms th cap]
    expand_right_bridge[of s k rms th cap] expand_right_cut[of s k rms th cap]
  by blast

lemmas loop_eval = expand_left.simps expand_right.simps probe_left.simps probe_right.simps
  THRESHOLD_def THRESHOLD_END_def MAX_PAUSE_FRAMES_def

lemma normalise_loud_edges: "normalise loud_edges = [1/2, 0, 1, 1/2]"
  by (simp add: normalise_def loud_edges_def np_max_def np_min_def)

lemma worked_middle: "np_argmax worked_envelope = 3"
  by (simp add: np_argmax_def np_max_def worked_envelope_def)

lemma worked_left: "expand_left worked_envelope THRESHOLD MAX_PAUSE_FRAMES 3 = Some 0"
  by (simp add: loop_eval worked_envelope_def)

lemma worked_right: "expand_right worked_envelope THRESHOLD_END MAX_PAUSE_FRAMES 3 = Some 10"
  by (simp add: loop_eval worked_envelope_def)

theorem pause_bridged_or_boundary_at_first_pause_frame_witness:
  "pause_right worked_envelope THRESHOLD_END 6 2
   \<and> expand_right worked_envelope THRESHOLD_END MAX_PAUSE_FRAMES 6
       = expand_right worked_envelope THRESHOLD_END MAX_PAUSE_FRAMES 8
   \<and> pause_left worked_envelope THRESHOLD 0 1
   \<and> expand_left worked_envelope THRESHOLD MAX_PAUSE_FRAMES 0 = Some 0
   \<and> pause_left (normalise loud_edges) THRESHOLD 1 1
   \<and> expand_left (normalise loud_edges) THRESHOLD MAX_PAUSE_FRAMES 1
       = expand_left (normalise loud_edges) THRESHOLD MAX_PAUSE_FRAMES 0
   \<and> pause_right [1, 0] THRESHOLD_END 1 1
   \<and> expand_right [1, 0] THRESHOLD_END MAX_PAUSE_FRAMES 1 = Some 1"
proof -
  have a: "pause_right worked_envelope THRESHOLD_END 6 2"
    by (simp add: numeral_2_eq_2 worked_envelope_def THRESHOLD_END_def)
  have a': "int 2 < MAX_PAUSE_FRAMES \<and> 6 + int 2 < int (length worked_envelope)
     \<and> THRESHOLD_END < worked_envelope ! nat (6 + int 2) \<and> (6::int) < int (length worked_envelope)"
    by (simp add: worked_envelope_def THRESHOLD_END_def MAX_PAUSE_FRAMES_def)
  have b: "pause_left worked_envelope THRESHOLD 0 1"
    by (simp add: worked_envelope_def THRESHOLD_def)
  have b': "int 1 \<le> MAX_PAUSE_FRAMES \<and> (0::int) < int (length worked_envelope)"
    by (simp add: worked_envelope_def MAX_PAUSE_FRAMES_def)
  have c: "pause_left (normalise loud_edges) THRESHOLD 1 1"
    by (simp add: normalise_loud_edges THRESHOLD_def)
  have c': "int 1 < MAX_PAUSE_FRAMES \<and> THRESHOLD < normalise loud_edges ! nat (1 - int 1)
     \<and> (1::int) < int (length (normalise loud_edges))"
    by (simp add: normalise_loud_edges THRESHOLD_def MAX_PAUSE_FRAMES_def)
  have d: "pause_right [1, 0] THRESHOLD_END 1 1"
    by (simp add: THRESHOLD_END_def)
  have d': "int 1 \<le> MAX_PAUSE_FRAMES"
    by (simp add: MAX_PAUSE_FRAMES_def)
  have A: "expand_right worked_envelope THRESHOLD_END MAX_PAUSE_FRAMES 6
       = expand_right worked_envelope THRESHOLD_END MAX_PAUSE_FRAMES 8"
    using a a' pause_bridged_or_boundary_at_first_pause_frame
        [of 6 worked_envelope 2 THRESHOLD_END MAX_PAUSE_FRAMES] by simp
  have B: "expand_left worked_envelope THRESHOLD MAX_PAUSE_FRAMES 0 = Some 0"
    using b b' pause_bridged_or_boundary_at_first_pause_frame
        [of 0 worked_envelope 1 THRESHOLD MAX_PAUSE_FRAMES] by simp
  have C: "expand_left (normalise loud_edges) THRESHOLD MAX_PAUSE_FRAMES 1
       = expand_left (normalise loud_edges) THRESHOLD MAX_PAUSE_FRAMES 0"
    using c c' pause_bridged_or_boundary_at_first_pause_frame
        [of 1 "normalise loud_edges" 1 THRESHOLD MAX_PAUSE_FRAMES] by simp
  have D: "expand_right [1, 0] THRESHOLD_END MAX_PAUSE_FRAMES 1 = Some 1"
    using d d' pause_bridged_or_boundary_at_first_pause_frame
        [of 1 "[1, 0]" 1 THRESHOLD_END MAX_PAUSE_FRAMES] by simp
  show ?thesis using a b c d A B C D by blast
qed

text \<open>
  In the worked example frame 0 is the only frame of a run that reaches the left edge,
  and frame 1 precedes it in the direction of travel: the expansion stops at 0, not at 1.
  On \<open>[1, 0]\<close> the right expansion meets at frame 1 a run that reaches the right edge
  and stops at 1, not at 0.
\<close>

lemma left_edge_cut: "expand_left worked_envelope THRESHOLD MAX_PAUSE_FRAMES 0 = Some 0"
  by (simp add: loop_eval worked_envelope_def)

lemma right_edge_cut: "expand_right [1, 0] THRESHOLD_END MAX_PAUSE_FRAMES 1 = Some 1"
  by (simp add: loop_eval)

theorem boundary_not_frame_before_pause:
  "pause_left worked_envelope THRESHOLD 0 1
   \<and> expand_left worked_envelope THRESHOLD MAX_PAUSE_FRAMES 0 \<noteq> Some (0 + 1)
   \<and> pause_right [1, 0] THRESHOLD_END 1 1
   \<and> expand_right [1, 0] THRESHOLD_END MAX_PAUSE_FRAMES 1 \<noteq> Some (1 - 1)"
  using left_edge_cut right_edge_cut
  by (simp add: worked_envelope_def THRESHOLD_def THRESHOLD_END_def)

section \<open>The worked example\<close>

text \<open>
  C2. The claim is that on the worked envelope, with both thresholds 0.015 and the cap
  20, the search from the loudest frame 3 returns start 0 and end 9 before the lexical
  extension. The left expansion returns 0. The right expansion bridges frames 6 and 7,
  steps over frames 8 and 9, which are both above the threshold, and leaves its loop
  with \<open>end = 10\<close>, the length of the envelope and one more than its last index 9:
  the loop condition \<open>end < rms_sound.size\<close> is what stops it, and nothing brings the
  index back into the envelope.
\<close>

theorem worked_example_boundaries:
  "np_argmax worked_envelope = 3
   \<and> boundary_search worked_envelope THRESHOLD THRESHOLD_END MAX_PAUSE_FRAMES = Some (0, 10)
   \<and> int (length worked_envelope) - 1 = 9"
  using worked_middle worked_left worked_right
  by (simp add: boundary_search_def worked_envelope_def)

section \<open>Boundaries and the range of the envelope\<close>

lemma loud_middle: "np_argmax [1/2, 0, 1, 1/2] = 2"
  by (simp add: np_argmax_def np_max_def)

lemma loud_left: "expand_left [1/2, 0, 1, 1/2] THRESHOLD MAX_PAUSE_FRAMES 2 = Some (- 1)"
  by (simp add: loop_eval)

lemma loud_right: "expand_right [1/2, 0, 1, 1/2] THRESHOLD_END MAX_PAUSE_FRAMES 2 = Some 4"
  by (simp add: loop_eval)

lemma casa_end: "extend_end ''casa'' n e = Inr e"
  by (simp add: extend_end_def py_index_def)

text \<open>
  C3. The claim is that the boundaries after the lexical extension satisfy
  \<open>0 \<le> start\<close> and \<open>end \<le> L - 1\<close>. The left loop leaves with \<open>start = -1\<close> when frame
  0 is above the threshold, and the right loop with \<open>end = L\<close> when the last frame is;
  the clamp \<open>end = rms_sound.size - 1\<close> is applied only in the branch of a word that
  does not end in a vowel. On the envelope \<open>[1, 0, 2, 1]\<close> (normalised
  \<open>[1/2, 0, 1, 1/2]\<close>, \<open>L = 4\<close>) and the word \<open>casa\<close> the function goes on with
  \<open>start = -1\<close> and \<open>end = 4\<close>.
\<close>

theorem boundaries_leave_envelope:
  "frame_bounds (normalise loud_edges) ''casa'' THRESHOLD THRESHOLD_END MAX_PAUSE_FRAMES
     = Some (Inr (- 1, 4))
   \<and> int (length (normalise loud_edges)) - 1 = 3"
  using loud_middle loud_left loud_right
  by (simp add: normalise_loud_edges frame_bounds_def boundary_search_def casa_end)

section \<open>Files, paths and the batch loop\<close>

lemma lower_append: "lower (a @ b) = lower a @ lower b"
  by (simp add: lower_def)

lemma lower_wav: "lower ''.wav'' = ''.wav''"
  by code_simp

lemma length_lower: "length (lower s) = length s"
  by (simp add: lower_def)

lemma endswith_lower_wav: "endswith file ''.wav'' \<Longrightarrow> endswith (lower file) ''.wav''"
  unfolding endswith_def suffix_def using lower_append lower_wav by auto

lemma path_join_suffix: "\<exists>p. path_join a b = p @ b"
proof -
  have "path_join a b = [] @ b \<or> path_join a b = a @ b \<or> path_join a b = (a @ ''/'') @ b"
    by (simp add: path_join_def)
  then show ?thesis by blast
qed

lemma endswith_path_join:
  assumes "length suf \<le> length b"
  shows "endswith (path_join a b) suf = endswith b suf"
proof -
  obtain p where p: "path_join a b = p @ b" using path_join_suffix by blast
  have "suffix suf (p @ b) = suffix suf b"
  proof
    assume "suffix suf (p @ b)"
    moreover have "suffix b (p @ b)" by (simp add: suffixI)
    ultimately show "suffix suf b" using assms by (rule suffix_length_suffix)
  next
    assume "suffix suf b"
    then show "suffix suf (p @ b)" by (rule suffix_appendI)
  qed
  with p show ?thesis by (simp add: endswith_def)
qed

lemma endswith_length: "endswith s suf \<Longrightarrow> length suf \<le> length s"
  by (auto simp: endswith_def suffix_def)

lemma wav_path:
  assumes "endswith (lower file) ''.wav''"
  shows "endswith (path_join root_dir file) ''.wav'' = endswith file ''.wav''"
proof -
  from assms have "length ''.wav'' \<le> length file"
    using endswith_length[of "lower file" "''.wav''"] by (simp add: length_lower)
  then show ?thesis by (rule endswith_path_join)
qed

lemma process_wav_file_not_wav:
  "\<not> endswith input_file ''.wav''
   \<Longrightarrow> process_wav_file w input_file output_directory relative_path robot_times
        = Some (Inr \<lparr>returned = None, written = None\<rparr>)"
  by (simp add: process_wav_file_def)

lemma process_wav_file_load_error:
  "endswith input_file ''.wav'' \<Longrightarrow> librosa_load w input_file = Inl e
   \<Longrightarrow> process_wav_file w input_file output_directory relative_path robot_times = Some (Inl e)"
  by (simp add: process_wav_file_def)

lemma process_wav_file_sliced:
  assumes "endswith input_file ''.wav''"
    and "librosa_load w input_file = Inr (audio_data, sample_rate)"
    and "re_search input_file = Some word"
    and "slice_noise_reduced_audio_files_byt (envelope_of w) audio_data sample_rate input_file word
           THRESHOLD THRESHOLD_END NORMALIZE_RMS = Some (Inr (sliced, onset, total_duration))"
  shows "process_wav_file w input_file output_directory relative_path robot_times =
     (case robot_times word of
        None \<Rightarrow> Some (Inl KeyError)
      | Some reference \<Rightarrow>
          Some (Inr \<lparr>returned = Some ((py_repr w (path_join output_directory relative_path),
                                         pf_sub (Num onset) reference, total_duration),
                                        to_include (pf_sub (Num onset) reference) (Num total_duration)),
                      written = (if to_include (pf_sub (Num onset) reference) (Num total_duration)
                                 then Some (path_join output_directory relative_path, sliced, py_int sample_rate)
                                 else None)\<rparr>))"
  using assms by (simp add: process_wav_file_def Let_def split: option.splits)

lemma visit_file_skipped:
  "\<not> endswith (lower file) ''.wav'' \<Longrightarrow> visit_file w src dst rt root_dir file b = Some (Inr b)"
  by (simp add: visit_file_def)

lemma visit_file_error:
  assumes "endswith (lower file) ''.wav''"
    and "process_wav_file w (path_join root_dir file) dst
           (os_relpath w (path_join root_dir file) src) rt = Some (Inl e)"
  shows "visit_file w src dst rt root_dir file b = Some (Inl e)"
  using assms by (simp add: visit_file_def Let_def)

lemma visit_file_none:
  assumes "endswith (lower file) ''.wav''"
    and "process_wav_file w (path_join root_dir file) dst
           (os_relpath w (path_join root_dir file) src) rt = Some (Inr r)"
    and "returned r = None"
  shows "visit_file w src dst rt root_dir file b = Some (Inl TypeError)"
  using assms by (simp add: visit_file_def Let_def)

lemma visit_file_row:
  assumes "endswith (lower file) ''.wav''"
    and "process_wav_file w (path_join root_dir file) dst
           (os_relpath w (path_join root_dir file) src) rt = Some (Inr r)"
    and "returned r = Some (file_features, incl)"
  shows "visit_file w src dst rt root_dir file b =
     Some (Inr \<lparr>slice_features = (if incl then slice_features b @ [file_features] else slice_features b),
                 written_files = written_files b @ (case written r of None \<Rightarrow> [] | Some f \<Rightarrow> [f]),
                 count = count b + 1\<rparr>)"
  using assms by (simp add: visit_file_def Let_def)

lemma visit_files_append:
  "visit_files w src dst rt root_dir (xs @ ys) b =
     (case visit_files w src dst rt root_dir xs b of
        None \<Rightarrow> None
      | Some (Inl e) \<Rightarrow> Some (Inl e)
      | Some (Inr b') \<Rightarrow> visit_files w src dst rt root_dir ys b')"
  by (induction xs arbitrary: b) (auto split: option.splits sum.splits)

lemma visit_dirs_append:
  "visit_dirs w src dst rt (xs @ ys) b =
     (case visit_dirs w src dst rt xs b of
        None \<Rightarrow> None
      | Some (Inl e) \<Rightarrow> Some (Inl e)
      | Some (Inr b') \<Rightarrow> visit_dirs w src dst rt ys b')"
  by (induction xs arbitrary: b) (auto split: option.splits sum.splits)

lemma batch_aborts_at_file:
  assumes "shutil_copytree w src dst = None"
    and "os_walk w src = dirs_before @ (root_dir, files_before @ file # files_after) # dirs_after"
    and "visit_dirs w src dst rt dirs_before \<lparr>slice_features = [], written_files = [], count = 0\<rparr>
           = Some (Inr b1)"
    and "visit_files w src dst rt root_dir files_before b1 = Some (Inr b2)"
    and "visit_file w src dst rt root_dir file b2 = Some (Inl e)"
  shows "copy_directory_with_wav_processing w src dst rt = Some (Inl e)"
proof -
  have "visit_files w src dst rt root_dir (files_before @ file # files_after) b1 = Some (Inl e)"
    using assms(4,5) by (simp add: visit_files_append)
  then have "visit_dirs w src dst rt ((root_dir, files_before @ file # files_after) # dirs_after) b1
               = Some (Inl e)"
    by simp
  then have "visit_dirs w src dst rt (os_walk w src) \<lparr>slice_features = [], written_files = [], count = 0\<rparr>
               = Some (Inl e)"
    using assms(2,3) by (simp add: visit_dirs_append)
  with assms(1) show ?thesis by (simp add: copy_directory_with_wav_processing_def)
qed

section \<open>Frame indices and times\<close>

lemma cut_in_range:
  assumes "0 \<le> start" "start < int (length audio_file)" "0 \<le> e" "e < int (length audio_file)"
  shows "cut audio_file start e =
     Inr (Samples (py_slice audio_file (start * HOP_LENGTH) (e * HOP_LENGTH + FRAME_SIZE)),
          real_of_int (start * HOP_LENGTH) / LIBROSA_DEFAULT_SR,
          real_of_int (e * HOP_LENGTH) / LIBROSA_DEFAULT_SR
            - real_of_int (start * HOP_LENGTH) / LIBROSA_DEFAULT_SR)"
  using assms by (simp add: cut_def py_index_def frames_to_time_def Let_def)

lemma cut_wrapped_start:
  assumes "start < 0" "- int (length audio_file) \<le> start" "0 \<le> e" "e < int (length audio_file)"
  shows "cut audio_file start e =
     Inr (Samples (py_slice audio_file (start * HOP_LENGTH) (e * HOP_LENGTH + FRAME_SIZE)),
          real_of_int ((int (length audio_file) + start) * HOP_LENGTH) / LIBROSA_DEFAULT_SR,
          real_of_int (e * HOP_LENGTH) / LIBROSA_DEFAULT_SR
            - real_of_int ((int (length audio_file) + start) * HOP_LENGTH) / LIBROSA_DEFAULT_SR)"
  using assms by (simp add: cut_def py_index_def frames_to_time_def Let_def nat_add_distrib)

lemma length_clip: "length clip = 1000"
  by (simp add: clip_def)

lemma peak_middle: "np_argmax [0, 0, 1, 0] = 2"
  by (simp add: np_argmax_def np_max_def)

lemma peak_left: "expand_left [0, 0, 1, 0] THRESHOLD MAX_PAUSE_FRAMES 2 = Some 1"
  by (simp add: loop_eval)

lemma peak_right: "expand_right [0, 0, 1, 0] THRESHOLD_END MAX_PAUSE_FRAMES 2 = Some 3"
  by (simp add: loop_eval)

lemma normalise_peak: "normalise [0, 0, 1, 0] = [0, 0, 1, 0]"
  by (simp add: normalise_def np_max_def np_min_def)

lemma peak_bounds:
  "frame_bounds [0, 0, 1, 0] ''casa'' THRESHOLD THRESHOLD_END MAX_PAUSE_FRAMES = Some (Inr (1, 3))"
  using peak_middle peak_left peak_right
  by (simp add: frame_bounds_def boundary_search_def casa_end)

lemma loud_bounds:
  "frame_bounds [1/2, 0, 1, 1/2] ''casa'' THRESHOLD THRESHOLD_END MAX_PAUSE_FRAMES = Some (Inr (- 1, 4))"
  using loud_middle loud_left loud_right
  by (simp add: frame_bounds_def boundary_search_def casa_end)

lemma peak_slice:
  "slice_envelope clip [0, 0, 1, 0] ''casa'' THRESHOLD THRESHOLD_END NORMALIZE_RMS
     = Some (Inr (Samples (py_slice clip 256 1792), 256 / 22050, 768 / 22050 - 256 / 22050))"
proof -
  have "cut clip 1 3 = Inr (Samples (py_slice clip 256 1792), 256 / 22050, 768 / 22050 - 256 / 22050)"
    by (simp add: cut_in_range length_clip HOP_LENGTH_def FRAME_SIZE_def LIBROSA_DEFAULT_SR_def)
  then show ?thesis
    using peak_bounds
    by (simp add: slice_envelope_def NORMALIZE_RMS_def normalise_peak np_max_def np_min_def)
qed

lemma loud_slice:
  "slice_envelope clip loud_edges ''casa'' THRESHOLD THRESHOLD_END NORMALIZE_RMS
     = Some (Inr (Samples (py_slice clip (- 256) 2048), 999 * 256 / 22050,
                  4 * 256 / 22050 - 999 * 256 / 22050))"
proof -
  have "cut clip (- 1) 4 = Inr (Samples (py_slice clip (- 256) 2048), 999 * 256 / 22050,
                  4 * 256 / 22050 - 999 * 256 / 22050)"
    by (simp add: cut_wrapped_start length_clip HOP_LENGTH_def FRAME_SIZE_def LIBROSA_DEFAULT_SR_def)
  moreover have "np_max loud_edges - np_min loud_edges \<noteq> 0" "loud_edges \<noteq> []"
    by (simp_all add: loud_edges_def np_max_def np_min_def)
  ultimately show ?thesis
    using loud_bounds
    by (simp add: slice_envelope_def NORMALIZE_RMS_def normalise_loud_edges)
qed

text \<open>
  C5. The claim is that, for every clip and every \<open>audio_rate\<close>, the onset is
  \<open>start_frame * HOP_LENGTH / audio_rate\<close> and the duration
  \<open>end_frame * HOP_LENGTH / audio_rate\<close> minus the onset. The source builds its time
  table with \<^verbatim>\<open>librosa.frames_to_time(frames, hop_length=HOP_LENGTH)\<close>, without the
  rate, so every time is computed at 22050 Hz whatever \<open>audio_rate\<close> is (lemma
  \<open>cut_in_range\<close>): at 44100 Hz a clip with \<open>start_frame = 1\<close> gets the onset
  \<open>256 / 22050\<close>, twice \<open>256 / 44100\<close>. And at 22050 Hz itself, when the left
  expansion leaves with \<open>start_frame = -1\<close>, \<^verbatim>\<open>t[start]\<close> is the last entry of the
  table, the time of sample index 999 of a clip of 1000 samples, and the duration is
  negative.
\<close>

theorem onset_ignores_rate_and_wraps:
  "frame_bounds (normalise (peak_envelope clip 44100)) ''casa'' THRESHOLD THRESHOLD_END MAX_PAUSE_FRAMES
     = Some (Inr (1, 3))
   \<and> slice_noise_reduced_audio_files_byt peak_envelope clip 44100 ''p1(casa).wav'' ''casa''
       THRESHOLD THRESHOLD_END NORMALIZE_RMS
     = Some (Inr (Samples (py_slice clip 256 1792), 256 / 22050, 768 / 22050 - 256 / 22050))
   \<and> (256 :: real) / 22050 \<noteq> 1 * 256 / 44100
   \<and> frame_bounds (normalise (loud_envelope clip 22050)) ''casa'' THRESHOLD THRESHOLD_END MAX_PAUSE_FRAMES
     = Some (Inr (- 1, 4))
   \<and> slice_noise_reduced_audio_files_byt loud_envelope clip 22050 ''p1(casa).wav'' ''casa''
       THRESHOLD THRESHOLD_END NORMALIZE_RMS
     = Some (Inr (Samples (py_slice clip (- 256) 2048), 999 * 256 / 22050,
                  4 * 256 / 22050 - 999 * 256 / 22050))
   \<and> (999 * 256 :: real) / 22050 \<noteq> (- 1) * 256 / 22050"
  using peak_bounds peak_slice loud_bounds loud_slice
  by (simp add: slice_noise_reduced_audio_files_byt_def peak_envelope_def loud_envelope_def
        normalise_peak normalise_loud_edges)

section \<open>One file\<close>

lemma rec_path: "path_join ''rec'' ''p1(casa).wav'' = ''rec/p1(casa).wav''"
  by code_simp

lemma out_path: "path_join ''out'' ''p1(casa).wav'' = ''out/p1(casa).wav''"
  by code_simp

lemma p1_wav: "endswith ''p1(casa).wav'' ''.wav''"
  by code_simp

lemma p1_path_wav: "endswith ''rec/p1(casa).wav'' ''.wav''"
  by code_simp

lemma p1_word: "re_search ''rec/p1(casa).wav'' = Some ''casa''"
  by code_simp

lemma p1_relpath: "drop (length ''rec'' + 1) ''rec/p1(casa).wav'' = ''p1(casa).wav''"
  by code_simp

lemma to_include_numbers:
  "to_include (Num x) (Num d) = acceptance_window x d"
  by (auto simp: to_include_def acceptance_window_def)

lemma to_include_nan: "to_include NaN (Num d) = (0.3 \<le> d \<and> d \<le> 3)"
  by (auto simp: to_include_def)

lemma to_include_infinite: "\<not> to_include PInf d \<and> \<not> to_include MInf d"
  by (simp add: to_include_def)

lemma flat_slice:
  assumes "rms \<noteq> []" "np_max rms - np_min rms = 0"
  shows "slice_envelope audio_file rms word threshold threshold_end normalize_rms
           = Some (Inr (Scalar (- 1), - 1, - 1))"
  using assms by (simp add: slice_envelope_def)

lemma sentinel_excluded: "\<not> to_include x (Num (- 1))"
  by (simp add: to_include_def)

lemma p1_processed:
  assumes "librosa_load w ''rec/p1(casa).wav'' = Inr (clip, 22050)"
    and "envelope_of w = peak_envelope"
    and "py_repr w = (\<lambda>s. s)"
  shows "process_wav_file w ''rec/p1(casa).wav'' ''out'' ''p1(casa).wav'' casa_table
     = Some (Inr \<lparr>returned = Some ((''out/p1(casa).wav'', Num (256 / 22050 - 4 / 5), 768 / 22050 - 256 / 22050), False),
                  written = None\<rparr>)"
proof -
  have s: "slice_noise_reduced_audio_files_byt (envelope_of w) clip 22050 ''rec/p1(casa).wav'' ''casa''
             THRESHOLD THRESHOLD_END NORMALIZE_RMS
           = Some (Inr (Samples (py_slice clip 256 1792), 256 / 22050, 768 / 22050 - 256 / 22050))"
    using peak_slice assms(2) by (simp add: slice_noise_reduced_audio_files_byt_def peak_envelope_def)
  have i: "\<not> to_include (Num (256 / 22050 - 4 / 5)) (Num (768 / 22050 - 256 / 22050))"
    by (simp add: to_include_def)
  have r: "py_repr w (path_join ''out'' ''p1(casa).wav'') = ''out/p1(casa).wav''"
    using assms(3) by (simp add: out_path)
  show ?thesis
    using process_wav_file_sliced[OF p1_path_wav assms(1) p1_word s, of "''out''" "''p1(casa).wav''" casa_table] i r
    by (simp add: casa_table_def)
qed

lemma p1_visited:
  assumes "librosa_load w ''rec/p1(casa).wav'' = Inr (clip, 22050)"
    and "envelope_of w = peak_envelope"
    and "py_repr w = (\<lambda>s. s)"
    and "os_relpath w = (\<lambda>p d. drop (length d + 1) p)"
  shows "visit_files w ''rec'' ''out'' casa_table ''rec'' [''p1(casa).wav'']
           \<lparr>slice_features = [], written_files = [], count = 0\<rparr>
         = Some (Inr \<lparr>slice_features = [], written_files = [], count = 1\<rparr>)"
proof -
  have rel: "os_relpath w (path_join ''rec'' ''p1(casa).wav'') ''rec'' = ''p1(casa).wav''"
    using assms(4) p1_relpath by (simp add: rec_path)
  have sel: "endswith (lower ''p1(casa).wav'') ''.wav''"
    using p1_wav by (rule endswith_lower_wav)
  have pr: "process_wav_file w (path_join ''rec'' ''p1(casa).wav'') ''out''
              (os_relpath w (path_join ''rec'' ''p1(casa).wav'') ''rec'') casa_table
     = Some (Inr \<lparr>returned = Some ((''out/p1(casa).wav'', Num (256 / 22050 - 4 / 5), 768 / 22050 - 256 / 22050), False),
                  written = None\<rparr>)"
    using p1_processed[OF assms(1,2,3)] rel by (simp only: rec_path)
  have ret: "returned \<lparr>returned = Some ((''out/p1(casa).wav'', Num (256 / 22050 - 4 / 5),
                                            768 / 22050 - 256 / 22050 :: real), False),
                        written = None\<rparr>
             = Some ((''out/p1(casa).wav'', Num (256 / 22050 - 4 / 5), 768 / 22050 - 256 / 22050), False)"
    by simp
  have "visit_file w ''rec'' ''out'' casa_table ''rec'' ''p1(casa).wav''
           \<lparr>slice_features = [], written_files = [], count = 0\<rparr>
         = Some (Inr \<lparr>slice_features = [], written_files = [], count = 1\<rparr>)"
    using visit_file_row[OF sel pr ret, where b = "\<lparr>slice_features = [], written_files = [], count = 0\<rparr>"]
    by simp
  then show ?thesis by simp
qed

text \<open>The recording of a spoken word: its boundaries are frames 29 and 60.\<close>

lemma spoken_list: "spoken_envelope a r = replicate 30 0 @ replicate 30 1 @ replicate 3 0"
  by (simp add: spoken_envelope_def)

lemma spoken_ne: "spoken_envelope a r \<noteq> []"
  by (simp add: spoken_envelope_def)

lemma spoken_max: "np_max (spoken_envelope a r) = 1"
  by (simp add: spoken_envelope_def np_max_def)

lemma spoken_min: "np_min (spoken_envelope a r) = 0"
  by (simp add: spoken_envelope_def np_min_def)

lemma spoken_normalise: "normalise (spoken_envelope a r) = spoken_envelope a r"
  by (simp add: normalise_def spoken_max spoken_min)

lemma spoken_middle: "np_argmax (spoken_envelope a r) = 30"
  by (simp add: np_argmax_def spoken_max) (simp add: spoken_envelope_def takeWhile_append)

lemma spoken_left:
  "expand_left (replicate 30 0 @ replicate 30 1 @ replicate 3 0) THRESHOLD MAX_PAUSE_FRAMES 30 = Some 29"
  by (simp add: loop_eval nth_append)

lemma spoken_right:
  "expand_right (replicate 30 0 @ replicate 30 1 @ replicate 3 0) THRESHOLD_END MAX_PAUSE_FRAMES 30 = Some 60"
  by (simp add: loop_eval nth_append)

lemma length_long_clip: "length long_clip = 16000"
  by (simp add: long_clip_def)

lemma spoken_bounds:
  "frame_bounds (spoken_envelope a r) ''casa'' THRESHOLD THRESHOLD_END MAX_PAUSE_FRAMES
     = Some (Inr (29, 60))"
  using spoken_middle[of a r] spoken_left spoken_right
  by (simp add: frame_bounds_def boundary_search_def casa_end spoken_list)

lemma spoken_slice:
  "slice_noise_reduced_audio_files_byt spoken_envelope long_clip 22050 f ''casa''
       THRESHOLD THRESHOLD_END NORMALIZE_RMS
     = Some (Inr (Samples (py_slice long_clip 7424 16384), 7424 / 22050, 15360 / 22050 - 7424 / 22050))"
proof -
  have "cut long_clip 29 60
          = Inr (Samples (py_slice long_clip 7424 16384), 7424 / 22050, 15360 / 22050 - 7424 / 22050)"
    by (simp add: cut_in_range length_long_clip HOP_LENGTH_def FRAME_SIZE_def LIBROSA_DEFAULT_SR_def)
  then show ?thesis
    using spoken_bounds[of long_clip 22050]
    by (simp add: slice_noise_reduced_audio_files_byt_def slice_envelope_def NORMALIZE_RMS_def
          spoken_normalise spoken_max spoken_min spoken_ne)
qed

text \<open>
  C9. The claim is that the inclusion flag is true exactly when the reaction time lies in
  \<open>[-0.5, 2]\<close> and the total duration in \<open>[0.3, 3]\<close>, the ends included. For a file that
  is read, named and sliced, and whose word has a reference duration, the source computes
  the reaction time \<open>onset - reference\<close> and tests
  \<^verbatim>\<open>not (real_onset > 2 or real_onset < -0.5 or total_duration < 0.3 or total_duration > 3)\<close>.
  When the reference duration is a number, the flag is the closed window of the
  specification at that reaction time and the duration, and the file is written exactly
  when the flag is true. When the reference duration is \<^verbatim>\<open>nan\<close>, the value read from a
  blank cell, the reaction time is \<^verbatim>\<open>nan\<close>, neither comparison with it holds, and the
  flag depends on the duration alone. An infinite reference duration excludes the file.
  The four corners of the window pass the test of the source.
\<close>

theorem inclusion_flag_closed_window_on_numbers:
  assumes "endswith input_file ''.wav''"
    and "librosa_load w input_file = Inr (audio_data, sample_rate)"
    and "re_search input_file = Some word"
    and "slice_noise_reduced_audio_files_byt (envelope_of w) audio_data sample_rate input_file word
           THRESHOLD THRESHOLD_END NORMALIZE_RMS = Some (Inr (sliced, onset, total_duration))"
    and "robot_times word = Some reference"
  shows "(\<forall>r. reference = Num r \<longrightarrow>
            process_wav_file w input_file output_directory relative_path robot_times
              = Some (Inr \<lparr>returned = Some ((py_repr w (path_join output_directory relative_path),
                                              Num (onset - r), total_duration),
                                             acceptance_window (onset - r) total_duration),
                           written = (if acceptance_window (onset - r) total_duration
                                      then Some (path_join output_directory relative_path, sliced,
                                                 py_int sample_rate)
                                      else None)\<rparr>))
       \<and> (reference = NaN \<longrightarrow>
            process_wav_file w input_file output_directory relative_path robot_times
              = Some (Inr \<lparr>returned = Some ((py_repr w (path_join output_directory relative_path),
                                              NaN, total_duration),
                                             0.3 \<le> total_duration \<and> total_duration \<le> 3),
                           written = (if 0.3 \<le> total_duration \<and> total_duration \<le> 3
                                      then Some (path_join output_directory relative_path, sliced,
                                                 py_int sample_rate)
                                      else None)\<rparr>))
       \<and> (reference = PInf \<or> reference = MInf \<longrightarrow>
            process_wav_file w input_file output_directory relative_path robot_times
              = Some (Inr \<lparr>returned = Some ((py_repr w (path_join output_directory relative_path),
                                              pf_sub (Num onset) reference, total_duration),
                                             False),
                           written = None\<rparr>))
       \<and> to_include (Num (- 0.5)) (Num 0.3) \<and> to_include (Num (- 0.5)) (Num 3)
       \<and> to_include (Num 2) (Num 0.3) \<and> to_include (Num 2) (Num 3)"
proof -
  note p = process_wav_file_sliced[OF assms(1,2,3,4), of output_directory relative_path robot_times]
  have a: "\<forall>r. reference = Num r \<longrightarrow>
            process_wav_file w input_file output_directory relative_path robot_times
              = Some (Inr \<lparr>returned = Some ((py_repr w (path_join output_directory relative_path),
                                              Num (onset - r), total_duration),
                                             acceptance_window (onset - r) total_duration),
                           written = (if acceptance_window (onset - r) total_duration
                                      then Some (path_join output_directory relative_path, sliced,
                                                 py_int sample_rate)
                                      else None)\<rparr>)"
    using p assms(5) by (simp add: to_include_numbers)
  have b: "reference = NaN \<longrightarrow>
            process_wav_file w input_file output_directory relative_path robot_times
              = Some (Inr \<lparr>returned = Some ((py_repr w (path_join output_directory relative_path),
                                              NaN, total_duration),
                                             0.3 \<le> total_duration \<and> total_duration \<le> 3),
                           written = (if 0.3 \<le> total_duration \<and> total_duration \<le> 3
                                      then Some (path_join output_directory relative_path, sliced,
                                                 py_int sample_rate)
                                      else None)\<rparr>)"
    using p assms(5) by (simp add: to_include_nan)
  have c: "reference = PInf \<or> reference = MInf \<longrightarrow>
            process_wav_file w input_file output_directory relative_path robot_times
              = Some (Inr \<lparr>returned = Some ((py_repr w (path_join output_directory relative_path),
                                              pf_sub (Num onset) reference, total_duration),
                                             False),
                           written = None\<rparr>)"
    using p assms(5) to_include_infinite by auto
  have d: "to_include (Num (- 0.5)) (Num 0.3) \<and> to_include (Num (- 0.5)) (Num 3)
       \<and> to_include (Num 2) (Num 0.3) \<and> to_include (Num 2) (Num 3)"
    by (simp add: to_include_numbers acceptance_window_def)
  from a b c d show ?thesis by blast
qed

lemma spoken_load: "librosa_load lab_spoken f = Inr (long_clip, 22050)"
  by (simp add: lab_spoken_def lab_def)

lemma spoken_env: "envelope_of lab_spoken = spoken_envelope"
  by (simp add: lab_spoken_def lab_def)

lemma spoken_repr: "py_repr lab_spoken s = s"
  by (simp add: lab_spoken_def lab_def)

lemma rate_int: "py_int 22050 = 22050"
  by (simp add: py_int_def)

theorem inclusion_flag_closed_window_on_numbers_witness:
  "process_wav_file lab_spoken ''rec/p1(casa).wav'' ''out'' ''p1(casa).wav'' casa_table
     = Some (Inr \<lparr>returned = Some ((''out/p1(casa).wav'', Num (7424 / 22050 - 4 / 5),
                                     15360 / 22050 - 7424 / 22050), True),
                  written = Some (''out/p1(casa).wav'', Samples (py_slice long_clip 7424 16384), 22050)\<rparr>)
   \<and> process_wav_file lab_spoken ''rec/p1(casa).wav'' ''out'' ''p1(casa).wav'' corner_table
     = Some (Inr \<lparr>returned = Some ((''out/p1(casa).wav'', Num (- (1 / 2)),
                                     15360 / 22050 - 7424 / 22050), True),
                  written = Some (''out/p1(casa).wav'', Samples (py_slice long_clip 7424 16384), 22050)\<rparr>)
   \<and> process_wav_file lab_spoken ''rec/p1(casa).wav'' ''out'' ''p1(casa).wav'' blank_table
     = Some (Inr \<lparr>returned = Some ((''out/p1(casa).wav'', NaN,
                                     15360 / 22050 - 7424 / 22050), True),
                  written = Some (''out/p1(casa).wav'', Samples (py_slice long_clip 7424 16384), 22050)\<rparr>)"
proof -
  have sl: "slice_noise_reduced_audio_files_byt (envelope_of lab_spoken) long_clip 22050
              ''rec/p1(casa).wav'' ''casa'' THRESHOLD THRESHOLD_END NORMALIZE_RMS
            = Some (Inr (Samples (py_slice long_clip 7424 16384), 7424 / 22050,
                         15360 / 22050 - 7424 / 22050))"
    using spoken_slice by (simp add: spoken_env)
  have t1: "casa_table ''casa'' = Some (Num (4 / 5))"
    by (simp add: casa_table_def)
  have t2: "corner_table ''casa'' = Some (Num (7424 / 22050 + 1 / 2))"
    by (simp add: corner_table_def)
  have t3: "blank_table ''casa'' = Some NaN"
    by (simp add: blank_table_def)
  have w1: "acceptance_window (7424 / 22050 - 4 / 5) (15360 / 22050 - 7424 / 22050)"
    by (simp add: acceptance_window_def)
  have w2: "acceptance_window (7424 / 22050 - (7424 / 22050 + 1 / 2)) (15360 / 22050 - 7424 / 22050)"
    by (simp add: acceptance_window_def)
  have w3: "(0.3 :: real) \<le> 15360 / 22050 - 7424 / 22050 \<and> (15360 / 22050 - 7424 / 22050 :: real) \<le> 3"
    by simp
  have e2: "(7424 / 22050 - (7424 / 22050 + 1 / 2) :: real) = - (1 / 2)"
    by simp
  note inst = inclusion_flag_closed_window_on_numbers[OF p1_path_wav spoken_load p1_word sl,
               where output_directory = "''out''" and relative_path = "''p1(casa).wav''"]
  have a: "process_wav_file lab_spoken ''rec/p1(casa).wav'' ''out'' ''p1(casa).wav'' casa_table
     = Some (Inr \<lparr>returned = Some ((''out/p1(casa).wav'', Num (7424 / 22050 - 4 / 5),
                                     15360 / 22050 - 7424 / 22050), True),
                  written = Some (''out/p1(casa).wav'', Samples (py_slice long_clip 7424 16384), 22050)\<rparr>)"
    using inst[where robot_times = casa_table, OF t1, THEN conjunct1, THEN spec, of "4 / 5"] w1 by (simp add: spoken_repr out_path rate_int)
  have b: "process_wav_file lab_spoken ''rec/p1(casa).wav'' ''out'' ''p1(casa).wav'' corner_table
     = Some (Inr \<lparr>returned = Some ((''out/p1(casa).wav'', Num (- (1 / 2)),
                                     15360 / 22050 - 7424 / 22050), True),
                  written = Some (''out/p1(casa).wav'', Samples (py_slice long_clip 7424 16384), 22050)\<rparr>)"
    using inst[where robot_times = corner_table, OF t2, THEN conjunct1, THEN spec, of "7424 / 22050 + 1 / 2"] w2 e2 by (simp add: spoken_repr out_path rate_int)
  have c: "process_wav_file lab_spoken ''rec/p1(casa).wav'' ''out'' ''p1(casa).wav'' blank_table
     = Some (Inr \<lparr>returned = Some ((''out/p1(casa).wav'', NaN,
                                     15360 / 22050 - 7424 / 22050), True),
                  written = Some (''out/p1(casa).wav'', Samples (py_slice long_clip 7424 16384), 22050)\<rparr>)"
    using inst[where robot_times = blank_table, OF t3, THEN conjunct2, THEN conjunct1] w3 by (simp add: spoken_repr out_path rate_int)
  from a b c show ?thesis by simp
qed

text \<open>
  With a blank duration cell for the word, the whole run returns a report whose only row
  has the reaction time \<^verbatim>\<open>nan\<close>, and the sliced file is written: the file is included,
  and its reaction time is not in the interval from \<open>-0.5\<close> to \<open>2\<close>.
\<close>

lemma lower_casa: "lower ''casa'' = ''casa''"
  by code_simp

lemma blank_rows: "read_excel lab_blank stimuli_path_param = Inr [(''casa'', NaN)]"
  by (simp add: lab_blank_def)

lemma blank_keys: "normalise_keys lab_blank (to_dict [(''casa'', NaN)]) = blank_table"
  by (simp add: normalise_keys_def to_dict_def lab_blank_def lab_spoken_def lab_def lower_casa
        blank_table_def)

lemma blank_source_path:
  "path_join source_directory_param ''p1(casa).wav'' = ''../exampleNewData/p1(casa).wav''"
  by code_simp

lemma blank_destination_path:
  "path_join destination_directory_param ''p1(casa).wav'' = ''../sliced_exampleFiles/p1(casa).wav''"
  by code_simp

lemma blank_relpath:
  "drop (length source_directory_param + 1) ''../exampleNewData/p1(casa).wav'' = ''p1(casa).wav''"
  by code_simp

lemma blank_word: "re_search ''../exampleNewData/p1(casa).wav'' = Some ''casa''"
  by code_simp

lemma blank_path_wav: "endswith ''../exampleNewData/p1(casa).wav'' ''.wav''"
  by code_simp

theorem nan_reaction_time_included:
  "read_excel lab_blank stimuli_path_param = Inr [(''casa'', NaN)]
   \<and> main lab_blank
       = Some (Inr \<lparr>slice_features = [(''../sliced_exampleFiles/p1(casa).wav'', NaN,
                                        15360 / 22050 - 7424 / 22050)],
                    written_files = [(''../sliced_exampleFiles/p1(casa).wav'',
                                      Samples (py_slice long_clip 7424 16384), 22050)],
                    count = 1\<rparr>)
   \<and> \<not> (pf_le (Num (- 0.5)) NaN \<and> pf_le NaN (Num 2))"
proof -
  let ?b0 = "\<lparr>slice_features = [], written_files = [], count = 0\<rparr>"
  let ?path = "''../exampleNewData/p1(casa).wav''"
  let ?out = "''../sliced_exampleFiles/p1(casa).wav''"
  let ?r = "\<lparr>returned = Some ((?out, NaN, 15360 / 22050 - 7424 / 22050 :: real), True),
              written = Some (?out, Samples (py_slice long_clip 7424 16384), 22050)\<rparr>"
  have l: "librosa_load lab_blank ?path = Inr (long_clip, 22050)"
    by (simp add: lab_blank_def lab_spoken_def lab_def)
  have sl: "slice_noise_reduced_audio_files_byt (envelope_of lab_blank) long_clip 22050 ?path ''casa''
              THRESHOLD THRESHOLD_END NORMALIZE_RMS
            = Some (Inr (Samples (py_slice long_clip 7424 16384), 7424 / 22050,
                         15360 / 22050 - 7424 / 22050))"
    using spoken_slice by (simp add: lab_blank_def lab_spoken_def lab_def)
  have inc: "to_include NaN (Num (15360 / 22050 - 7424 / 22050))"
    by (simp add: to_include_nan)
  have rel: "os_relpath lab_blank ?path source_directory_param = ''p1(casa).wav''"
    using blank_relpath by (simp add: lab_blank_def lab_spoken_def lab_def)
  have p: "process_wav_file lab_blank ?path destination_directory_param ''p1(casa).wav'' blank_table = Some (Inr ?r)"
    using process_wav_file_sliced[OF blank_path_wav l blank_word sl,
            of destination_directory_param "''p1(casa).wav''" blank_table] inc
    by (simp add: blank_table_def blank_destination_path rate_int lab_blank_def lab_spoken_def lab_def)
  have p': "process_wav_file lab_blank (path_join source_directory_param ''p1(casa).wav'')
              destination_directory_param
              (os_relpath lab_blank (path_join source_directory_param ''p1(casa).wav'') source_directory_param)
              blank_table = Some (Inr ?r)"
    using p rel by (simp only: blank_source_path)
  have sel: "endswith (lower ''p1(casa).wav'') ''.wav''"
    using p1_wav by (rule endswith_lower_wav)
  have ret: "returned ?r = Some ((?out, NaN, 15360 / 22050 - 7424 / 22050), True)"
    by simp
  have v: "visit_file lab_blank source_directory_param destination_directory_param blank_table
             source_directory_param ''p1(casa).wav'' ?b0
           = Some (Inr \<lparr>slice_features = [(?out, NaN, 15360 / 22050 - 7424 / 22050)],
                        written_files = [(?out, Samples (py_slice long_clip 7424 16384), 22050)],
                        count = 1\<rparr>)"
    using visit_file_row[OF sel p' ret, where b = ?b0] by simp
  have wk: "os_walk lab_blank source_directory_param = [(source_directory_param, [''p1(casa).wav''])]"
    by (simp add: lab_blank_def lab_spoken_def lab_def)
  have c: "shutil_copytree lab_blank source_directory_param destination_directory_param = None"
    by (simp add: lab_blank_def lab_spoken_def lab_def)
  have "copy_directory_with_wav_processing lab_blank source_directory_param destination_directory_param
          blank_table
        = Some (Inr \<lparr>slice_features = [(?out, NaN, 15360 / 22050 - 7424 / 22050)],
                     written_files = [(?out, Samples (py_slice long_clip 7424 16384), 22050)],
                     count = 1\<rparr>)"
    using c wk v by (simp add: copy_directory_with_wav_processing_def)
  then have m: "main lab_blank
        = Some (Inr \<lparr>slice_features = [(?out, NaN, 15360 / 22050 - 7424 / 22050)],
                     written_files = [(?out, Samples (py_slice long_clip 7424 16384), 22050)],
                     count = 1\<rparr>)"
    using blank_rows blank_keys by (simp add: main_def)
  from blank_rows m show ?thesis by simp
qed

text \<open>
  C10. A file that the walker selects because its name ends in \<open>.wav\<close> once lowered,
  but whose name does not end in lower-case \<open>.wav\<close>, makes \<^verbatim>\<open>process_wav_file\<close>
  return \<^verbatim>\<open>None\<close>; unpacking it raises \<^verbatim>\<open>TypeError\<close>, which ends the batch, whatever
  the files before it produced.
\<close>

theorem upper_case_extension_aborts_batch:
  assumes "endswith (lower file) ''.wav''" and "\<not> endswith file ''.wav''"
    and "shutil_copytree w src dst = None"
    and "os_walk w src = dirs_before @ (root_dir, files_before @ file # files_after) # dirs_after"
    and "visit_dirs w src dst rt dirs_before \<lparr>slice_features = [], written_files = [], count = 0\<rparr>
           = Some (Inr b1)"
    and "visit_files w src dst rt root_dir files_before b1 = Some (Inr b2)"
  shows "process_wav_file w (path_join root_dir file) dst (os_relpath w (path_join root_dir file) src) rt
           = Some (Inr \<lparr>returned = None, written = None\<rparr>)
       \<and> visit_file w src dst rt root_dir file b2 = Some (Inl TypeError)
       \<and> copy_directory_with_wav_processing w src dst rt = Some (Inl TypeError)"
proof -
  have "\<not> endswith (path_join root_dir file) ''.wav''"
    using assms(1,2) by (simp add: wav_path)
  then have p: "process_wav_file w (path_join root_dir file) dst (os_relpath w (path_join root_dir file) src) rt
           = Some (Inr \<lparr>returned = None, written = None\<rparr>)"
    by (rule process_wav_file_not_wav)
  have v: "visit_file w src dst rt root_dir file b2 = Some (Inl TypeError)"
    using assms(1) p by (rule visit_file_none) simp
  have "copy_directory_with_wav_processing w src dst rt = Some (Inl TypeError)"
    using assms(3,4,5,6) v by (rule batch_aborts_at_file)
  with p v show ?thesis by simp
qed

lemma p2_upper: "endswith (lower ''p2(casa).WAV'') ''.wav'' \<and> \<not> endswith ''p2(casa).WAV'' ''.wav''"
  by code_simp

theorem upper_case_extension_aborts_batch_witness:
  "endswith (lower ''p2(casa).WAV'') ''.wav'' \<and> \<not> endswith ''p2(casa).WAV'' ''.wav''
   \<and> os_walk lab_upper ''rec'' = [(''rec'', [''p1(casa).wav'', ''p2(casa).WAV''])]
   \<and> process_wav_file lab_upper (path_join ''rec'' ''p2(casa).WAV'') ''out''
        (os_relpath lab_upper (path_join ''rec'' ''p2(casa).WAV'') ''rec'') casa_table
        = Some (Inr \<lparr>returned = None, written = None\<rparr>)
   \<and> copy_directory_with_wav_processing lab_upper ''rec'' ''out'' casa_table = Some (Inl TypeError)"
proof -
  have c: "shutil_copytree lab_upper ''rec'' ''out'' = None"
    by (simp add: lab_upper_def lab_def)
  have wk: "os_walk lab_upper ''rec'' = [] @ (''rec'', [''p1(casa).wav''] @ ''p2(casa).WAV'' # []) # []"
    by (simp add: lab_upper_def lab_def)
  have d: "visit_dirs lab_upper ''rec'' ''out'' casa_table [] \<lparr>slice_features = [], written_files = [], count = 0\<rparr>
             = Some (Inr \<lparr>slice_features = [], written_files = [], count = 0\<rparr>)"
    by simp
  have f: "visit_files lab_upper ''rec'' ''out'' casa_table ''rec'' [''p1(casa).wav'']
           \<lparr>slice_features = [], written_files = [], count = 0\<rparr>
         = Some (Inr \<lparr>slice_features = [], written_files = [], count = 1\<rparr>)"
    by (rule p1_visited) (simp_all add: lab_upper_def lab_def)
  from upper_case_extension_aborts_batch[OF conjunct1[OF p2_upper] conjunct2[OF p2_upper] c wk d f]
    p2_upper wk
  show ?thesis by simp
qed

section \<open>Failures of one file and the batch\<close>

text \<open>
  C7. The claim is that a \<open>.wav\<close> file whose audio cannot be read is caught and turned
  into a skip of that file, so that the batch goes on. The source has no exception
  handler at all: when \<^verbatim>\<open>librosa.load\<close> raises, \<^verbatim>\<open>process_wav_file\<close> raises, and so
  does \<^verbatim>\<open>copy_directory_with_wav_processing\<close>, which returns no report and leaves the
  remaining files unvisited. The theorem states this for a file at any place of the walk
  whose predecessors were processed.
\<close>

theorem unreadable_audio_aborts_batch:
  assumes "endswith file ''.wav''"
    and "librosa_load w (path_join root_dir file) = Inl e"
    and "shutil_copytree w src dst = None"
    and "os_walk w src = dirs_before @ (root_dir, files_before @ file # files_after) # dirs_after"
    and "visit_dirs w src dst rt dirs_before \<lparr>slice_features = [], written_files = [], count = 0\<rparr>
           = Some (Inr b1)"
    and "visit_files w src dst rt root_dir files_before b1 = Some (Inr b2)"
  shows "process_wav_file w (path_join root_dir file) dst (os_relpath w (path_join root_dir file) src) rt
           = Some (Inl e)
       \<and> copy_directory_with_wav_processing w src dst rt = Some (Inl e)"
proof -
  have sel: "endswith (lower file) ''.wav''"
    using assms(1) by (rule endswith_lower_wav)
  then have "endswith (path_join root_dir file) ''.wav''"
    using assms(1) by (simp add: wav_path)
  then have p: "process_wav_file w (path_join root_dir file) dst (os_relpath w (path_join root_dir file) src) rt
           = Some (Inl e)"
    using assms(2) by (rule process_wav_file_load_error)
  have v: "visit_file w src dst rt root_dir file b2 = Some (Inl e)"
    using sel p by (rule visit_file_error)
  have "copy_directory_with_wav_processing w src dst rt = Some (Inl e)"
    using assms(3,4,5,6) v by (rule batch_aborts_at_file)
  with p show ?thesis by simp
qed

lemma p2_path: "path_join ''rec'' ''p2(casa).wav'' = ''rec/p2(casa).wav''"
  by code_simp

lemma p2_wav: "endswith ''p2(casa).wav'' ''.wav''"
  by code_simp

lemma unreadable_walk:
  "os_walk lab_unreadable ''rec''
     = [] @ (''rec'', [''p1(casa).wav''] @ ''p2(casa).wav'' # [''p3(casa).wav'']) # []"
  by (simp add: lab_unreadable_def lab_def)

lemma unreadable_p1:
  "visit_files lab_unreadable ''rec'' ''out'' casa_table ''rec'' [''p1(casa).wav'']
           \<lparr>slice_features = [], written_files = [], count = 0\<rparr>
         = Some (Inr \<lparr>slice_features = [], written_files = [], count = 1\<rparr>)"
  by (rule p1_visited) (simp_all add: lab_unreadable_def lab_def)

lemma unreadable_p2: "librosa_load lab_unreadable (path_join ''rec'' ''p2(casa).wav'') = Inl LoadError"
  by (simp add: p2_path lab_unreadable_def lab_def)

theorem unreadable_audio_aborts_batch_witness:
  "endswith ''p2(casa).wav'' ''.wav''
   \<and> librosa_load lab_unreadable (path_join ''rec'' ''p2(casa).wav'') = Inl LoadError
   \<and> os_walk lab_unreadable ''rec'' = [(''rec'', [''p1(casa).wav'', ''p2(casa).wav'', ''p3(casa).wav''])]
   \<and> process_wav_file lab_unreadable (path_join ''rec'' ''p2(casa).wav'') ''out''
        (os_relpath lab_unreadable (path_join ''rec'' ''p2(casa).wav'') ''rec'') casa_table
        = Some (Inl LoadError)
   \<and> copy_directory_with_wav_processing lab_unreadable ''rec'' ''out'' casa_table = Some (Inl LoadError)"
proof -
  have c: "shutil_copytree lab_unreadable ''rec'' ''out'' = None"
    by (simp add: lab_unreadable_def lab_def)
  have d: "visit_dirs lab_unreadable ''rec'' ''out'' casa_table [] \<lparr>slice_features = [], written_files = [], count = 0\<rparr>
             = Some (Inr \<lparr>slice_features = [], written_files = [], count = 0\<rparr>)"
    by simp
  from unreadable_audio_aborts_batch[OF p2_wav unreadable_p2 c unreadable_walk d unreadable_p1]
    p2_wav unreadable_p2 unreadable_walk
  show ?thesis by simp
qed

text \<open>
  Of three files the second cannot be read: the batch ends with the error of the load,
  and the third file is not visited.
\<close>

theorem unreadable_file_not_skipped:
  "librosa_load lab_unreadable ''rec/p2(casa).wav'' = Inl LoadError
   \<and> copy_directory_with_wav_processing lab_unreadable ''rec'' ''out'' casa_table = Some (Inl LoadError)"
proof -
  have c: "shutil_copytree lab_unreadable ''rec'' ''out'' = None"
    by (simp add: lab_unreadable_def lab_def)
  have d: "visit_dirs lab_unreadable ''rec'' ''out'' casa_table [] \<lparr>slice_features = [], written_files = [], count = 0\<rparr>
             = Some (Inr \<lparr>slice_features = [], written_files = [], count = 0\<rparr>)"
    by simp
  have "endswith (path_join ''rec'' ''p2(casa).wav'') ''.wav''"
    using p2_wav endswith_lower_wav[OF p2_wav] by (simp add: wav_path)
  then have "process_wav_file lab_unreadable (path_join ''rec'' ''p2(casa).wav'') ''out''
        (os_relpath lab_unreadable (path_join ''rec'' ''p2(casa).wav'') ''rec'') casa_table
        = Some (Inl LoadError)"
    using unreadable_p2 by (rule process_wav_file_load_error)
  with endswith_lower_wav[OF p2_wav]
  have "visit_file lab_unreadable ''rec'' ''out'' casa_table ''rec'' ''p2(casa).wav''
          \<lparr>slice_features = [], written_files = [], count = 1\<rparr> = Some (Inl LoadError)"
    by (rule visit_file_error)
  with c unreadable_walk d unreadable_p1
  have "copy_directory_with_wav_processing lab_unreadable ''rec'' ''out'' casa_table = Some (Inl LoadError)"
    by (rule batch_aborts_at_file)
  moreover have "librosa_load lab_unreadable ''rec/p2(casa).wav'' = Inl LoadError"
    using unreadable_p2 by (simp only: p2_path)
  ultimately show ?thesis by simp
qed

text \<open>
  C8. The claim is that a constant envelope gives the sentinel triple, that the
  downstream stages are skipped, and that the file is left out of the report. The
  function does return the three \<open>-1\<close>, before any boundary is searched. But
  \<^verbatim>\<open>process_wav_file\<close> does not test for the sentinel: it goes on to look the word up and
  to apply the acceptance test to the values \<open>-1\<close>. For a word of the table the test
  fails, because the duration \<open>-1\<close> is below \<open>0.3\<close>: nothing is written and no row is
  added to the report.
\<close>

theorem constant_envelope_rejected_by_validator:
  assumes "endswith file ''.wav''"
    and "librosa_load w (path_join root_dir file) = Inr (audio_data, sample_rate)"
    and "re_search (path_join root_dir file) = Some word"
    and "envelope_of w audio_data sample_rate \<noteq> []"
    and "np_max (envelope_of w audio_data sample_rate) - np_min (envelope_of w audio_data sample_rate) = 0"
    and "robot_times word = Some reference"
  shows "slice_noise_reduced_audio_files_byt (envelope_of w) audio_data sample_rate
           (path_join root_dir file) word threshold threshold_end normalize_rms
           = Some (Inr (Scalar (- 1), - 1, - 1))
       \<and> process_wav_file w (path_join root_dir file) dst (os_relpath w (path_join root_dir file) src) robot_times
           = Some (Inr \<lparr>returned = Some ((py_repr w (path_join dst (os_relpath w (path_join root_dir file) src)),
                                           pf_sub (Num (- 1)) reference, - 1), False),
                        written = None\<rparr>)
       \<and> visit_file w src dst robot_times root_dir file b
           = Some (Inr \<lparr>slice_features = slice_features b, written_files = written_files b,
                        count = count b + 1\<rparr>)"
proof -
  have sl: "\<And>th the nrm. slice_noise_reduced_audio_files_byt (envelope_of w) audio_data sample_rate
           (path_join root_dir file) word th the nrm = Some (Inr (Scalar (- 1), - 1, - 1))"
    using assms(4,5) by (simp add: slice_noise_reduced_audio_files_byt_def flat_slice)
  have sel: "endswith (lower file) ''.wav''"
    using assms(1) by (rule endswith_lower_wav)
  then have wav: "endswith (path_join root_dir file) ''.wav''"
    using assms(1) by (simp add: wav_path)
  have p: "process_wav_file w (path_join root_dir file) dst (os_relpath w (path_join root_dir file) src) robot_times
           = Some (Inr \<lparr>returned = Some ((py_repr w (path_join dst (os_relpath w (path_join root_dir file) src)),
                                           pf_sub (Num (- 1)) reference, - 1), False),
                        written = None\<rparr>)"
    using process_wav_file_sliced[OF wav assms(2,3) sl, of dst "os_relpath w (path_join root_dir file) src" robot_times]
      assms(6) sentinel_excluded[of "pf_sub (Num (- 1)) reference"]
    by simp
  have ret: "returned \<lparr>returned = Some ((py_repr w (path_join dst (os_relpath w (path_join root_dir file) src)),
                                           pf_sub (Num (- 1)) reference, - 1 :: real), False),
                        written = None\<rparr>
             = Some ((py_repr w (path_join dst (os_relpath w (path_join root_dir file) src)),
                      pf_sub (Num (- 1)) reference, - 1), False)"
    by simp
  have v: "visit_file w src dst robot_times root_dir file b
           = Some (Inr \<lparr>slice_features = slice_features b, written_files = written_files b,
                        count = count b + 1\<rparr>)"
    using visit_file_row[OF sel p ret, where b = b] by simp
  from sl p v show ?thesis by simp
qed

lemma flat_is_constant:
  "flat_envelope clip 22050 \<noteq> [] \<and> np_max (flat_envelope clip 22050) - np_min (flat_envelope clip 22050) = 0"
  by (simp add: flat_envelope_def np_max_def np_min_def)

lemma silent_load: "librosa_load lab_silent (path_join ''rec'' ''p1(casa).wav'') = Inr (clip, 22050)"
  by (simp add: lab_silent_def lab_def)

lemma silent_word: "re_search (path_join ''rec'' ''p1(casa).wav'') = Some ''casa''"
  using p1_word by (simp only: rec_path)

lemma silent_envelope: "envelope_of lab_silent = flat_envelope"
  by (simp add: lab_silent_def lab_def)

theorem constant_envelope_rejected_by_validator_witness:
  "np_max (envelope_of lab_silent clip 22050) - np_min (envelope_of lab_silent clip 22050) = 0
   \<and> slice_noise_reduced_audio_files_byt (envelope_of lab_silent) clip 22050
           (path_join ''rec'' ''p1(casa).wav'') ''casa'' THRESHOLD THRESHOLD_END NORMALIZE_RMS
           = Some (Inr (Scalar (- 1), - 1, - 1))
   \<and> process_wav_file lab_silent (path_join ''rec'' ''p1(casa).wav'') ''out''
        (os_relpath lab_silent (path_join ''rec'' ''p1(casa).wav'') ''rec'') casa_table
        = Some (Inr \<lparr>returned = Some ((''out/p1(casa).wav'', Num (- 1 - 4 / 5), - 1), False), written = None\<rparr>)
   \<and> visit_file lab_silent ''rec'' ''out'' casa_table ''rec'' ''p1(casa).wav''
        \<lparr>slice_features = [], written_files = [], count = 0\<rparr>
        = Some (Inr \<lparr>slice_features = [], written_files = [], count = 1\<rparr>)"
proof -
  have e: "envelope_of lab_silent clip 22050 \<noteq> []"
    and k: "np_max (envelope_of lab_silent clip 22050) - np_min (envelope_of lab_silent clip 22050) = 0"
    using flat_is_constant by (simp_all add: silent_envelope)
  have t: "casa_table ''casa'' = Some (Num (4 / 5))"
    by (simp add: casa_table_def)
  have o: "py_repr lab_silent (path_join ''out'' (os_relpath lab_silent (path_join ''rec'' ''p1(casa).wav'') ''rec''))
             = ''out/p1(casa).wav''"
    using p1_relpath out_path by (simp add: lab_silent_def lab_def rec_path)
  from constant_envelope_rejected_by_validator
         [where w = lab_silent and root_dir = "''rec''" and ?file = "''p1(casa).wav''"
            and audio_data = clip and sample_rate = 22050 and word = "''casa''"
            and robot_times = casa_table and reference = "Num (4 / 5)"
            and threshold = THRESHOLD and threshold_end = THRESHOLD_END
            and normalize_rms = NORMALIZE_RMS and dst = "''out''" and src = "''rec''"
            and b = "\<lparr>slice_features = [], written_files = [], count = 0\<rparr>",
          OF p1_wav silent_load silent_word e k t]
    k o
  show ?thesis by simp
qed

text \<open>
  That the validation is not skipped shows on a silent file whose word is not in the
  table: the lookup runs and raises \<^verbatim>\<open>KeyError\<close>, which ends the batch.
\<close>

theorem constant_envelope_still_validated:
  "np_max (envelope_of lab_silent clip 22050) - np_min (envelope_of lab_silent clip 22050) = 0
   \<and> librosa_load lab_silent ''rec/p1(casa).wav'' = Inr (clip, 22050)
   \<and> slice_noise_reduced_audio_files_byt (envelope_of lab_silent) clip 22050
           ''rec/p1(casa).wav'' ''casa'' THRESHOLD THRESHOLD_END NORMALIZE_RMS
           = Some (Inr (Scalar (- 1), - 1, - 1))
   \<and> process_wav_file lab_silent ''rec/p1(casa).wav'' ''out'' ''p1(casa).wav'' luna_table
        = Some (Inl KeyError)
   \<and> copy_directory_with_wav_processing lab_silent ''rec'' ''out'' luna_table = Some (Inl KeyError)"
proof -
  have e: "envelope_of lab_silent clip 22050 \<noteq> []"
    and k: "np_max (envelope_of lab_silent clip 22050) - np_min (envelope_of lab_silent clip 22050) = 0"
    using flat_is_constant by (simp_all add: silent_envelope)
  have l: "librosa_load lab_silent ''rec/p1(casa).wav'' = Inr (clip, 22050)"
    by (simp add: lab_silent_def lab_def)
  have sl: "slice_noise_reduced_audio_files_byt (envelope_of lab_silent) clip 22050
           ''rec/p1(casa).wav'' ''casa'' THRESHOLD THRESHOLD_END NORMALIZE_RMS
           = Some (Inr (Scalar (- 1), - 1, - 1))"
    using e k by (simp add: slice_noise_reduced_audio_files_byt_def flat_slice)
  have t: "luna_table ''casa'' = None"
    by (simp add: luna_table_def)
  have p: "process_wav_file lab_silent ''rec/p1(casa).wav'' ''out'' ''p1(casa).wav'' luna_table
        = Some (Inl KeyError)"
    using process_wav_file_sliced[OF p1_path_wav l p1_word sl, of "''out''" "''p1(casa).wav''" luna_table] t
    by simp
  have rel: "os_relpath lab_silent (path_join ''rec'' ''p1(casa).wav'') ''rec'' = ''p1(casa).wav''"
    using p1_relpath by (simp add: lab_silent_def lab_def rec_path)
  have "process_wav_file lab_silent (path_join ''rec'' ''p1(casa).wav'') ''out''
          (os_relpath lab_silent (path_join ''rec'' ''p1(casa).wav'') ''rec'') luna_table
        = Some (Inl KeyError)"
    using p rel by (simp only: rec_path)
  with endswith_lower_wav[OF p1_wav]
  have v: "visit_file lab_silent ''rec'' ''out'' luna_table ''rec'' ''p1(casa).wav''
             \<lparr>slice_features = [], written_files = [], count = 0\<rparr> = Some (Inl KeyError)"
    by (rule visit_file_error)
  have c: "shutil_copytree lab_silent ''rec'' ''out'' = None"
    by (simp add: lab_silent_def lab_def)
  have wk: "os_walk lab_silent ''rec'' = [] @ (''rec'', [] @ ''p1(casa).wav'' # []) # []"
    by (simp add: lab_silent_def lab_def)
  have d: "visit_dirs lab_silent ''rec'' ''out'' luna_table [] \<lparr>slice_features = [], written_files = [], count = 0\<rparr>
             = Some (Inr \<lparr>slice_features = [], written_files = [], count = 0\<rparr>)"
    by simp
  have f: "visit_files lab_silent ''rec'' ''out'' luna_table ''rec'' [] \<lparr>slice_features = [], written_files = [], count = 0\<rparr>
             = Some (Inr \<lparr>slice_features = [], written_files = [], count = 0\<rparr>)"
    by simp
  have "copy_directory_with_wav_processing lab_silent ''rec'' ''out'' luna_table = Some (Inl KeyError)"
    using c wk d f v by (rule batch_aborts_at_file)
  with k l sl p show ?thesis by simp
qed

section \<open>The reference duration\<close>

lemma lower_Casa: "lower ''Casa'' = ''casa''"
  by code_simp

lemma capital_table:
  "normalise_keys lab_capital (to_dict [(''Casa'', Num (4 / 5))]) = [''casa'' \<mapsto> Num (4 / 5)]"
  by (simp add: normalise_keys_def to_dict_def lab_capital_def lab_def lower_Casa)

lemma capital_path:
  "path_join source_directory_param ''p1(Casa).wav'' = ''../exampleNewData/p1(Casa).wav''"
  by code_simp

lemma capital_wav: "endswith ''p1(Casa).wav'' ''.wav''"
  by code_simp

lemma capital_word: "re_search ''../exampleNewData/p1(Casa).wav'' = Some ''Casa''"
  by code_simp

lemma Casa_end: "extend_end ''Casa'' n e = Inr e"
  by (simp add: extend_end_def py_index_def)

lemma capital_slice:
  "slice_envelope clip [0, 0, 1, 0] ''Casa'' THRESHOLD THRESHOLD_END NORMALIZE_RMS
     = Some (Inr (Samples (py_slice clip 256 1792), 256 / 22050, 768 / 22050 - 256 / 22050))"
proof -
  have b: "frame_bounds [0, 0, 1, 0] ''Casa'' THRESHOLD THRESHOLD_END MAX_PAUSE_FRAMES = Some (Inr (1, 3))"
    using peak_middle peak_left peak_right
    by (simp add: frame_bounds_def boundary_search_def Casa_end)
  have "cut clip 1 3 = Inr (Samples (py_slice clip 256 1792), 256 / 22050, 768 / 22050 - 256 / 22050)"
    by (simp add: cut_in_range length_clip HOP_LENGTH_def FRAME_SIZE_def LIBROSA_DEFAULT_SR_def)
  then show ?thesis
    using b
    by (simp add: slice_envelope_def NORMALIZE_RMS_def normalise_peak np_max_def np_min_def)
qed

text \<open>
  C6. The claim is that the reference duration is found under the normalised key of the
  word of the file name, so that the reaction time is computed also for a word with
  upper-case letters or diacritics. \<^verbatim>\<open>main\<close> normalises the keys of the table with
  \<^verbatim>\<open>unidecode(key).lower()\<close>, but \<^verbatim>\<open>process_wav_file\<close> looks up
  \<^verbatim>\<open>robot_times[word]\<close> with the word as the file name has it. With the table row
  \<open>Casa\<close> and the file \<open>p1(Casa).wav\<close> the normalised key \<open>casa\<close> is in the table, the
  lookup is done with \<open>Casa\<close>, and the run ends with \<^verbatim>\<open>KeyError\<close>.
\<close>

theorem lookup_uses_raw_word:
  "read_excel lab_capital stimuli_path_param = Inr [(''Casa'', Num (4 / 5))]
   \<and> os_walk lab_capital source_directory_param = [(source_directory_param, [''p1(Casa).wav''])]
   \<and> re_search (path_join source_directory_param ''p1(Casa).wav'') = Some ''Casa''
   \<and> normalise_keys lab_capital (to_dict [(''Casa'', Num (4 / 5))]) (lower (unidecode lab_capital ''Casa''))
       = Some (Num (4 / 5))
   \<and> normalise_keys lab_capital (to_dict [(''Casa'', Num (4 / 5))]) ''Casa'' = None
   \<and> main lab_capital = Some (Inl KeyError)"
proof -
  let ?rt = "normalise_keys lab_capital (to_dict [(''Casa'', Num (4 / 5))])"
  let ?b0 = "\<lparr>slice_features = [], written_files = [], count = 0\<rparr>"
  let ?path = "path_join source_directory_param ''p1(Casa).wav''"
  have x: "read_excel lab_capital stimuli_path_param = Inr [(''Casa'', Num (4 / 5))]"
    by (simp add: lab_capital_def lab_def)
  have wk: "os_walk lab_capital source_directory_param
              = [] @ (source_directory_param, [] @ ''p1(Casa).wav'' # []) # []"
    by (simp add: lab_capital_def lab_def)
  have word: "re_search ?path = Some ''Casa''"
    using capital_word by (simp only: capital_path)
  have norm: "?rt (lower (unidecode lab_capital ''Casa'')) = Some (Num (4 / 5))"
    by (simp add: capital_table) (simp add: lab_capital_def lab_def lower_Casa)
  have raw: "?rt ''Casa'' = None"
    by (simp add: capital_table)
  have sel: "endswith (lower ''p1(Casa).wav'') ''.wav''"
    using capital_wav by (rule endswith_lower_wav)
  have wav: "endswith ?path ''.wav''"
    using capital_wav sel by (simp add: wav_path)
  have l: "librosa_load lab_capital ?path = Inr (clip, 22050)"
    by (simp add: lab_capital_def lab_def)
  have sl: "slice_noise_reduced_audio_files_byt (envelope_of lab_capital) clip 22050 ?path ''Casa''
             THRESHOLD THRESHOLD_END NORMALIZE_RMS
           = Some (Inr (Samples (py_slice clip 256 1792), 256 / 22050, 768 / 22050 - 256 / 22050))"
    using capital_slice
    by (simp add: slice_noise_reduced_audio_files_byt_def lab_capital_def lab_def peak_envelope_def)
  have p: "process_wav_file lab_capital ?path destination_directory_param
             (os_relpath lab_capital ?path source_directory_param) ?rt = Some (Inl KeyError)"
    using process_wav_file_sliced[OF wav l word sl, of destination_directory_param
            "os_relpath lab_capital ?path source_directory_param" ?rt] raw
    by simp
  have v: "visit_file lab_capital source_directory_param destination_directory_param ?rt
             source_directory_param ''p1(Casa).wav'' ?b0 = Some (Inl KeyError)"
    using sel p by (rule visit_file_error)
  have c: "shutil_copytree lab_capital source_directory_param destination_directory_param = None"
    by (simp add: lab_capital_def lab_def)
  have d: "visit_dirs lab_capital source_directory_param destination_directory_param ?rt [] ?b0
             = Some (Inr ?b0)"
    by simp
  have f: "visit_files lab_capital source_directory_param destination_directory_param ?rt
             source_directory_param [] ?b0 = Some (Inr ?b0)"
    by simp
  have "copy_directory_with_wav_processing lab_capital source_directory_param
          destination_directory_param ?rt = Some (Inl KeyError)"
    using c wk d f v by (rule batch_aborts_at_file)
  then have m: "main lab_capital = Some (Inl KeyError)"
    using x by (simp add: main_def)
  from x wk word norm raw m show ?thesis by simp
qed

end
